theory Spec2Isabelle
  imports Main "HOL-Library.Word"
begin

section \<open>Data model\<close>

text \<open>
  A shallow embedding of the transaction core (\<^verbatim>\<open>Transaction\<close>: constructor,
  \<^verbatim>\<open>get_obj_for_encoding\<close>, \<^verbatim>\<open>from_obj_for_encoding\<close>) and of the multisig
  coordinator (\<^verbatim>\<open>mergeMultisigTransactions\<close>, \<^verbatim>\<open>verifyMultisig\<close>).

  A \<^verbatim>\<open>Uint8Array\<close> is a list of 8-bit words, a \<^verbatim>\<open>bigint\<close> or integral \<^verbatim>\<open>number\<close> is an
  \<^typ>\<open>int\<close>, an optional property is an \<^typ>\<open>'a option\<close> (\<^term>\<open>None\<close> is
  \<^verbatim>\<open>undefined\<close>), and a \<^verbatim>\<open>throw\<close> is the left injection of a sum. Inputs are typed as
  the TypeScript parameter interfaces declare them, so the branches of the validators
  that only reject ill-typed values (\<^verbatim>\<open>Not a Uint8Array\<close>, \<^verbatim>\<open>Not a boolean\<close>,
  \<^verbatim>\<open>Not an array\<close>, \<^verbatim>\<open>Not an address\<close>, \<^verbatim>\<open>Address must not be null\<close>,
  \<^verbatim>\<open>Genesis ID must be a string\<close>) have no input that reaches them.
\<close>

type_synonym bytes = "8 word list"

datatype error =
    InvalidTransactionType
  | InvalidAddressString
  | ZeroAddressMisuse
  | WrongByteLength nat nat
  | KeyregKeyLength nat
  | NotUint64
  | NotSafeUnsignedInteger
  | GenesisHashMissing
  | WrongNumberOfTypeFields nat
  | TypeFieldsMismatch
  | NonParticipationWithParams
  | OnlineKeyregMissingFields
  | BoxAppNotInForeignApps
  | ForeignAppIndexNotFound
  | UnexpectedTransactionType
  | InvalidGroupLength nat
  | MalformedBlob
  | MergeLessThanTwo
  | MsigMissing nat
  | MergeTxIDMismatch
  | MergeAuthAddrMismatch
  | MergeWrongPreimage
  | MergeSigMismatch
  | InvalidMsigPreimage
  | JsTypeError

fun bind :: "error + 'a \<Rightarrow> ('a \<Rightarrow> error + 'b) \<Rightarrow> error + 'b" where
  "bind (Inl e) f = Inl e"
| "bind (Inr a) f = f a"

text \<open>\<^verbatim>\<open>if (params.xParams) { this.x = {...} }\<close>: the block runs only for a present value.\<close>

fun when_present :: "('a \<Rightarrow> error + 'b) \<Rightarrow> 'a option \<Rightarrow> error + 'b option" where
  "when_present f None = Inr None"
| "when_present f (Some a) = bind (f a) (\<lambda>b. Inr (Some b))"

text \<open>\<^verbatim>\<open>xs.map(f)\<close> with an \<^verbatim>\<open>f\<close> that may throw: the first failure aborts the map.\<close>

fun map_err :: "('a \<Rightarrow> error + 'b) \<Rightarrow> 'a list \<Rightarrow> error + 'b list" where
  "map_err f [] = Inr []"
| "map_err f (a # as) = bind (f a) (\<lambda>b. bind (map_err f as) (\<lambda>bs. Inr (b # bs)))"

text \<open>
  \<^verbatim>\<open>if (cond) { forEncoding.key = value }\<close> on an object that does not have the key yet:
  the key is present with that value when the condition holds and absent otherwise.
\<close>

definition emit_if :: "bool \<Rightarrow> 'a \<Rightarrow> 'a option" where
  "emit_if cond v = (if cond then Some v else None)"

text \<open>\<^verbatim>\<open>if (this.field) { forEncoding.key = f(this.field) }\<close> for an optional object field.\<close>

definition emit_opt :: "'a option \<Rightarrow> ('a \<Rightarrow> 'b) \<Rightarrow> 'b option" where
  "emit_opt field f = (case field of None \<Rightarrow> None | Some a \<Rightarrow> Some (f a))"

text \<open>\<^verbatim>\<open>value ?? fallback\<close>\<close>

definition nullish :: "'a option \<Rightarrow> 'a \<Rightarrow> 'a" where
  "nullish v d = (case v of None \<Rightarrow> d | Some a \<Rightarrow> a)"

record Address =
  publicKey :: bytes
  checksum :: bytes

text \<open>A value of type \<^verbatim>\<open>string | Address\<close>.\<close>

datatype addr_in = AddrStr string | AddrObj Address

text \<open>A value of type \<^verbatim>\<open>string | Uint8Array\<close> (a key-registration key).\<close>

datatype key_in = KeyStr string | KeyBytes bytes

subsection \<open>The encoded (wire) objects\<close>

record EncodedAssetParams =
  apar_t :: "int option"
  apar_dc :: "int option"
  apar_df :: "bool option"
  apar_m :: "bytes option"
  apar_r :: "bytes option"
  apar_f :: "bytes option"
  apar_c :: "bytes option"
  apar_un :: "string option"
  apar_an :: "string option"
  apar_au :: "string option"
  apar_am :: "bytes option"

record EncodedLocalStateSchema =
  apls_nui :: "int option"
  apls_nbs :: "int option"

record EncodedGlobalStateSchema =
  apgs_nui :: "int option"
  apgs_nbs :: "int option"

record EncodedBoxReference =
  bx_i :: "int option"
  bx_n :: "bytes option"

text \<open>
  \<^verbatim>\<open>EncodedTransaction\<close>: the keys \<^verbatim>\<open>type\<close>, \<^verbatim>\<open>gh\<close> and \<^verbatim>\<open>lv\<close> are the ones the encoder
  always writes; every other key is optional. Field \<open>e_k\<close> is the key \<^verbatim>\<open>k\<close>.
\<close>

record EncodedTransaction =
  e_type :: string
  e_gh :: bytes
  e_lv :: int
  e_snd :: "bytes option"
  e_gen :: "string option"
  e_fee :: "int option"
  e_fv :: "int option"
  e_note :: "bytes option"
  e_lx :: "bytes option"
  e_rekey :: "bytes option"
  e_grp :: "bytes option"
  e_amt :: "int option"
  e_rcv :: "bytes option"
  e_close :: "bytes option"
  e_votekey :: "bytes option"
  e_selkey :: "bytes option"
  e_sprfkey :: "bytes option"
  e_votefst :: "int option"
  e_votelst :: "int option"
  e_votekd :: "int option"
  e_nonpart :: "bool option"
  e_caid :: "int option"
  e_apar :: "EncodedAssetParams option"
  e_xaid :: "int option"
  e_aamt :: "int option"
  e_arcv :: "bytes option"
  e_aclose :: "bytes option"
  e_asnd :: "bytes option"
  e_faid :: "int option"
  e_afrz :: "bool option"
  e_fadd :: "bytes option"
  e_apid :: "int option"
  e_apan :: "int option"
  e_apaa :: "bytes list option"
  e_apat :: "bytes list option"
  e_apas :: "int list option"
  e_apfa :: "int list option"
  e_apbx :: "EncodedBoxReference list option"
  e_apap :: "bytes option"
  e_apsu :: "bytes option"
  e_apls :: "EncodedLocalStateSchema option"
  e_apgs :: "EncodedGlobalStateSchema option"
  e_apep :: "int option"
  e_sptype :: "int option"
  e_spmsg :: "bytes option"
  e_sp :: "bytes option"

record EncodedSubsig =
  ss_pk :: bytes
  ss_s :: "bytes option"

record EncodedMultisig =
  msig_v :: int
  msig_thr :: int
  msig_subsig :: "EncodedSubsig list"

record EncodedLogicSig =
  lsig_l :: bytes
  lsig_arg :: "bytes list option"
  lsig_sig :: "bytes option"
  lsig_msig :: "EncodedMultisig option"

record EncodedSignedTransaction =
  st_sig :: "bytes option"
  st_txn :: EncodedTransaction
  st_msig :: "EncodedMultisig option"
  st_lsig :: "EncodedLogicSig option"
  st_sgnr :: "bytes option"

subsection \<open>External collaborators\<close>

text \<open>
  The address codec, the base64 codec, the msgpack codec, the hash, base32 and the
  Ed25519 primitive are imported by the two source files and are not part of them.
  They are taken as parameters: every function of the model that calls one of them takes
  the record \<open>x\<close> of collaborators as its first argument.

  \<^item> \<open>decodeAddress\<close>, \<open>encodeAddress\<close>, \<open>ALGORAND_ZERO_ADDRESS_STRING\<close>,
    \<open>fromMultisigPreImg\<close>: \<^verbatim>\<open>./encoding/address.js\<close>;
  \<^item> \<open>base64ToBytes\<close>, \<open>bytesToBase64\<close>: \<^verbatim>\<open>./encoding/binarydata.js\<close>;
  \<^item> \<open>msgpack_encode\<close> is \<^verbatim>\<open>encoding.encode\<close> on a transaction object,
    \<open>encode_stxn\<close> and \<open>decode_stxn\<close> are \<^verbatim>\<open>encoding.encode\<close> and \<^verbatim>\<open>encoding.decode\<close> on a
    signed-transaction object;
  \<^item> \<open>genericHash\<close>, \<open>nacl_verify\<close>: \<^verbatim>\<open>./nacl/naclWrappers.js\<close>;
  \<^item> \<open>base32_encode\<close>: \<^verbatim>\<open>hi-base32\<close>;
  \<^item> \<open>maxSafeUnsigned\<close>: the largest value \<^verbatim>\<open>utils.ensureSafeUnsignedInteger\<close> accepts.
\<close>

record ext =
  decodeAddress :: "string \<Rightarrow> error + Address"
  encodeAddress :: "bytes \<Rightarrow> string"
  ALGORAND_ZERO_ADDRESS_STRING :: string
  fromMultisigPreImg :: "int \<Rightarrow> int \<Rightarrow> bytes list \<Rightarrow> error + bytes"
  base64ToBytes :: "string \<Rightarrow> bytes"
  bytesToBase64 :: "bytes \<Rightarrow> string"
  msgpack_encode :: "EncodedTransaction \<Rightarrow> bytes"
  encode_stxn :: "EncodedSignedTransaction \<Rightarrow> bytes"
  decode_stxn :: "bytes \<Rightarrow> error + EncodedSignedTransaction"
  genericHash :: "bytes \<Rightarrow> bytes"
  nacl_verify :: "bytes \<Rightarrow> bytes \<Rightarrow> bytes \<Rightarrow> bool"
  base32_encode :: "bytes \<Rightarrow> string"
  maxSafeUnsigned :: int

subsection \<open>Construction parameters\<close>

record SuggestedParams =
  sp_flatFee :: "bool option"
  sp_fee :: int
  sp_minFee :: int
  sp_firstValid :: int
  sp_lastValid :: int
  sp_genesisID :: "string option"
  sp_genesisHash :: "string option"

record PaymentTransactionParams =
  pp_receiver :: addr_in
  pp_amount :: int
  pp_closeRemainderTo :: "addr_in option"

record KeyRegistrationTransactionParams =
  kp_voteKey :: "key_in option"
  kp_selectionKey :: "key_in option"
  kp_stateProofKey :: "key_in option"
  kp_voteFirst :: "int option"
  kp_voteLast :: "int option"
  kp_voteKeyDilution :: "int option"
  kp_nonParticipation :: "bool option"

record AssetConfigurationTransactionParams =
  cp_assetIndex :: "int option"
  cp_total :: "int option"
  cp_decimals :: "int option"
  cp_defaultFrozen :: "bool option"
  cp_manager :: "addr_in option"
  cp_reserve :: "addr_in option"
  cp_freeze :: "addr_in option"
  cp_clawback :: "addr_in option"
  cp_unitName :: "string option"
  cp_assetName :: "string option"
  cp_assetURL :: "string option"
  cp_assetMetadataHash :: "bytes option"

record AssetTransferTransactionParams =
  xp_assetIndex :: int
  xp_amount :: int
  xp_assetSender :: "addr_in option"
  xp_receiver :: addr_in
  xp_closeRemainderTo :: "addr_in option"

record AssetFreezeTransactionParams =
  fp_assetIndex :: int
  fp_freezeTarget :: addr_in
  fp_assetFrozen :: bool

record BoxReference =
  br_appIndex :: int
  br_name :: bytes

record ApplicationCallTransactionParams =
  ap_appId :: int
  ap_onComplete :: int
  ap_numLocalInts :: "int option"
  ap_numLocalByteSlices :: "int option"
  ap_numGlobalInts :: "int option"
  ap_numGlobalByteSlices :: "int option"
  ap_extraPages :: "int option"
  ap_approvalProgram :: "bytes option"
  ap_clearProgram :: "bytes option"
  ap_appArgs :: "bytes list option"
  ap_accounts :: "addr_in list option"
  ap_foreignApps :: "int list option"
  ap_foreignAssets :: "int list option"
  ap_boxes :: "BoxReference list option"

record StateProofTransactionParams =
  spp_stateProofType :: "int option"
  spp_stateProof :: "bytes option"
  spp_stateProofMessage :: "bytes option"

record TransactionParams =
  tp_type :: string
  tp_sender :: addr_in
  tp_note :: "bytes option"
  tp_lease :: "bytes option"
  tp_rekeyTo :: "addr_in option"
  tp_suggestedParams :: SuggestedParams
  tp_paymentParams :: "PaymentTransactionParams option"
  tp_keyregParams :: "KeyRegistrationTransactionParams option"
  tp_assetConfigParams :: "AssetConfigurationTransactionParams option"
  tp_assetTransferParams :: "AssetTransferTransactionParams option"
  tp_assetFreezeParams :: "AssetFreezeTransactionParams option"
  tp_appCallParams :: "ApplicationCallTransactionParams option"
  tp_stateProofParams :: "StateProofTransactionParams option"

subsection \<open>The transaction\<close>

record PaymentTransactionFields =
  pay_receiver :: Address
  pay_amount :: int
  pay_closeRemainderTo :: "Address option"

record KeyRegistrationTransactionFields =
  voteKey :: "bytes option"
  selectionKey :: "bytes option"
  stateProofKey :: "bytes option"
  voteFirst :: "int option"
  voteLast :: "int option"
  voteKeyDilution :: "int option"
  nonParticipation :: bool

record AssetConfigTransactionFields =
  acfg_assetId :: int
  assetTotal :: int
  assetDecimals :: int
  assetDefaultFrozen :: bool
  assetManager :: "Address option"
  assetReserve :: "Address option"
  assetFreezeAddr :: "Address option"
  assetClawback :: "Address option"
  assetUnitName :: string
  assetName :: string
  assetURL :: string
  assetMetadataHash :: "bytes option"

record AssetTransferTransactionFields =
  axfer_assetId :: int
  axfer_amount :: int
  axfer_sender :: "Address option"
  axfer_receiver :: Address
  axfer_closeRemainderTo :: "Address option"

record AssetFreezeTransactionFields =
  afrz_assetId :: int
  freezeAccount :: Address
  assetFrozen :: bool

record TransactionBoxReference =
  appIndex :: int
  box_name :: bytes

record ApplicationTransactionFields =
  appId :: int
  appOnComplete :: int
  appLocalInts :: int
  appLocalByteSlices :: int
  appGlobalInts :: int
  appGlobalByteSlices :: int
  extraPages :: int
  appApprovalProgram :: bytes
  appClearProgram :: bytes
  appArgs :: "bytes list"
  appAccounts :: "Address list"
  appForeignApps :: "int list"
  appForeignAssets :: "int list"
  boxes :: "TransactionBoxReference list"

record StateProofTransactionFields =
  stateProofType :: int
  stpf_stateProof :: bytes
  stateProofMessage :: bytes

text \<open>
  The class \<^verbatim>\<open>Transaction\<close>. \<open>txn_type\<close> is the property \<^verbatim>\<open>type\<close> and \<open>txn_note\<close>
  the property \<^verbatim>\<open>note\<close>; a transaction type is the string of the \<^verbatim>\<open>TransactionType\<close> enum.
\<close>

record Transaction =
  txn_type :: string
  sender :: Address
  txn_note :: bytes
  lease :: "bytes option"
  rekeyTo :: "Address option"
  group :: bytes
  fee :: int
  firstValid :: int
  lastValid :: int
  genesisID :: "string option"
  genesisHash :: bytes
  payment :: "PaymentTransactionFields option"
  keyreg :: "KeyRegistrationTransactionFields option"
  assetConfig :: "AssetConfigTransactionFields option"
  assetTransfer :: "AssetTransferTransactionFields option"
  assetFreeze :: "AssetFreezeTransactionFields option"
  applicationCall :: "ApplicationTransactionFields option"
  stateProof :: "StateProofTransactionFields option"

section \<open>Validators\<close>

definition uint8ArrayIsEmpty :: "bytes \<Rightarrow> bool" where
  "uint8ArrayIsEmpty input = list_all (\<lambda>v. v = 0) input"

text \<open>
  Modelled from the spec: \<^verbatim>\<open>utils.ensureUint64\<close> is imported, not defined in the source
  files. The spec: numerics are coerced and bounds-checked into an unsigned 64-bit value,
  rejecting negative, non-integer or overflowing inputs.
\<close>

definition MAX_UINT_64 :: int where
  "MAX_UINT_64 = 18446744073709551615"

definition ensureUint64 :: "int \<Rightarrow> error + int" where
  "ensureUint64 input = (if 0 \<le> input \<and> input \<le> MAX_UINT_64 then Inr input else Inl NotUint64)"

text \<open>
  Modelled from the spec: \<^verbatim>\<open>utils.ensureSafeUnsignedInteger\<close> is imported, not defined in
  the source files. It accepts the non-negative integers up to a bound (the spec: a safe
  unsigned integer for counts), which is the parameter \<open>maxSafeUnsigned\<close>.
\<close>

definition ensureSafeUnsignedInteger :: "ext \<Rightarrow> int \<Rightarrow> error + int" where
  "ensureSafeUnsignedInteger x input =
     (if 0 \<le> input \<and> input \<le> maxSafeUnsigned x then Inr input else Inl NotSafeUnsignedInteger)"

definition getKeyregKey :: "ext \<Rightarrow> key_in option \<Rightarrow> nat \<Rightarrow> error + bytes option" where
  "getKeyregKey x input len =
     (case input of
        None \<Rightarrow> Inr None
      | Some k \<Rightarrow>
          (let inputBytes = (case k of KeyStr s \<Rightarrow> base64ToBytes x s | KeyBytes b \<Rightarrow> b)
           in if length inputBytes \<noteq> len then Inl (KeyregKeyLength len) else Inr (Some inputBytes)))"

definition ensureAddress :: "ext \<Rightarrow> addr_in \<Rightarrow> error + Address" where
  "ensureAddress x input =
     (case input of AddrStr s \<Rightarrow> decodeAddress x s | AddrObj a \<Rightarrow> Inr a)"

definition optionalAddress :: "ext \<Rightarrow> addr_in option \<Rightarrow> error + Address option" where
  "optionalAddress x input =
     (case input of
        None \<Rightarrow> Inr None
      | Some i \<Rightarrow>
          bind (case i of AddrObj a \<Rightarrow> Inr a | AddrStr s \<Rightarrow> decodeAddress x s) (\<lambda>addr.
          if uint8ArrayIsEmpty (publicKey addr) then Inl ZeroAddressMisuse else Inr (Some addr)))"

definition optionalUint64 :: "int option \<Rightarrow> error + int option" where
  "optionalUint64 input =
     (case input of None \<Rightarrow> Inr None | Some n \<Rightarrow> bind (ensureUint64 n) (\<lambda>v. Inr (Some v)))"

definition optionalFixedLengthByteArray :: "bytes option \<Rightarrow> nat \<Rightarrow> error + bytes option" where
  "optionalFixedLengthByteArray input len =
     (case input of
        None \<Rightarrow> Inr None
      | Some b \<Rightarrow>
          if length b \<noteq> len then Inl (WrongByteLength len (length b))
          else if uint8ArrayIsEmpty b then Inr None
          else Inr (Some b))"

definition ensureBoxReference :: "BoxReference \<Rightarrow> error + TransactionBoxReference" where
  "ensureBoxReference input =
     bind (ensureUint64 (br_appIndex input)) (\<lambda>i.
     Inr \<lparr> appIndex = i, box_name = br_name input \<rparr>)"

definition ALGORAND_TRANSACTION_LENGTH :: nat where
  "ALGORAND_TRANSACTION_LENGTH = 52"

definition ALGORAND_TRANSACTION_LEASE_LENGTH :: nat where
  "ALGORAND_TRANSACTION_LEASE_LENGTH = 32"

definition NUM_ADDL_BYTES_AFTER_SIGNING :: nat where
  "NUM_ADDL_BYTES_AFTER_SIGNING = 75"

definition ASSET_METADATA_HASH_LENGTH :: nat where
  "ASSET_METADATA_HASH_LENGTH = 32"

definition KEYREG_VOTE_KEY_LENGTH :: nat where
  "KEYREG_VOTE_KEY_LENGTH = 32"

definition KEYREG_SELECTION_KEY_LENGTH :: nat where
  "KEYREG_SELECTION_KEY_LENGTH = 32"

definition KEYREG_STATE_PROOF_KEY_LENGTH :: nat where
  "KEYREG_STATE_PROOF_KEY_LENGTH = 64"

definition ALGORAND_TRANSACTION_GROUP_LENGTH :: nat where
  "ALGORAND_TRANSACTION_GROUP_LENGTH = 32"

text \<open>\<^verbatim>\<open>new TextEncoder().encode('TX')\<close>\<close>

definition TX_TAG :: bytes where
  "TX_TAG = [0x54, 0x58]"

text \<open>The values of the string enum \<^verbatim>\<open>TransactionType\<close>, in the order of its declaration.\<close>

definition isTransactionType :: "string \<Rightarrow> bool" where
  "isTransactionType s =
     (s = ''pay'' \<or> s = ''keyreg'' \<or> s = ''acfg'' \<or> s = ''axfer'' \<or> s = ''afrz''
      \<or> s = ''appl'' \<or> s = ''stpf'')"

section \<open>The canonical encoder\<close>

text \<open>\<^verbatim>\<open>xs.indexOf(a)\<close>, as an option: \<^term>\<open>None\<close> is JavaScript's \<^verbatim>\<open>-1\<close>.\<close>

fun indexOf :: "'a list \<Rightarrow> 'a \<Rightarrow> nat option" where
  "indexOf [] a = None"
| "indexOf (b # bs) a = (if b = a then Some 0 else map_option Suc (indexOf bs a))"

text \<open>
  Modelled from the spec: \<^verbatim>\<open>translateBoxReferences\<close> is imported from
  \<^verbatim>\<open>./boxStorage.js\<close>, not defined in the source files. The spec: each
  \<^verbatim>\<open>{appIndex, name}\<close> where \<^verbatim>\<open>appIndex == calledAppId\<close> or \<^verbatim>\<open>appIndex == 0\<close> becomes
  \<^verbatim>\<open>{i:0, n:name}\<close>; otherwise \<^verbatim>\<open>i\<close> is the 1-based index of \<^verbatim>\<open>appIndex\<close> within
  \<^verbatim>\<open>foreignApps\<close> and \<^verbatim>\<open>n\<close> the name. An \<^verbatim>\<open>appIndex\<close> that is neither is an error.
\<close>

definition translateBoxReference ::
  "TransactionBoxReference \<Rightarrow> int list \<Rightarrow> int \<Rightarrow> error + EncodedBoxReference" where
  "translateBoxReference reference foreignApps calledAppId =
     (if appIndex reference = calledAppId \<or> appIndex reference = 0
      then Inr \<lparr> bx_i = Some 0, bx_n = Some (box_name reference) \<rparr>
      else (case indexOf foreignApps (appIndex reference) of
              None \<Rightarrow> Inl BoxAppNotInForeignApps
            | Some k \<Rightarrow> Inr \<lparr> bx_i = Some (int k + 1), bx_n = Some (box_name reference) \<rparr>))"

definition translateBoxReferences ::
  "TransactionBoxReference list \<Rightarrow> int list \<Rightarrow> int \<Rightarrow> error + EncodedBoxReference list" where
  "translateBoxReferences references foreignApps calledAppId =
     map_err (\<lambda>r. translateBoxReference r foreignApps calledAppId) references"

text \<open>\<^verbatim>\<open>if (this.f) { forEncoding.k = this.f }\<close> for an optional \<^verbatim>\<open>bigint\<close>: present and not zero.\<close>

definition emit_int :: "int option \<Rightarrow> int option" where
  "emit_int v = (case v of None \<Rightarrow> None | Some n \<Rightarrow> emit_if (n \<noteq> 0) n)"

text \<open>The same for an optional string: present and not empty.\<close>

definition emit_str :: "string option \<Rightarrow> string option" where
  "emit_str v = (case v of None \<Rightarrow> None | Some s \<Rightarrow> emit_if (s \<noteq> []) s)"

definition no_asset_params :: EncodedAssetParams where
  "no_asset_params =
     \<lparr> apar_t = None, apar_dc = None, apar_df = None, apar_m = None, apar_r = None,
       apar_f = None, apar_c = None, apar_un = None, apar_an = None, apar_au = None,
       apar_am = None \<rparr>"

text \<open>
  The first part of \<^verbatim>\<open>get_obj_for_encoding\<close>: the object literal
  \<^verbatim>\<open>{type, gh, lv}\<close> and the conditional assignments of the common keys. No other key is
  in the object at this point.
\<close>

definition common_for_encoding :: "Transaction \<Rightarrow> EncodedTransaction" where
  "common_for_encoding t =
     \<lparr> e_type = txn_type t,
       e_gh = genesisHash t,
       e_lv = lastValid t,
       e_snd = emit_if (\<not> uint8ArrayIsEmpty (publicKey (sender t))) (publicKey (sender t)),
       e_gen = emit_str (genesisID t),
       e_fee = emit_if (fee t \<noteq> 0) (fee t),
       e_fv = emit_if (firstValid t \<noteq> 0) (firstValid t),
       e_note = emit_if (length (txn_note t) \<noteq> 0) (txn_note t),
       e_lx = emit_opt (lease t) (\<lambda>l. l),
       e_rekey = emit_opt (rekeyTo t) publicKey,
       e_grp = emit_if (length (group t) \<noteq> 0) (group t),
       e_amt = None, e_rcv = None, e_close = None,
       e_votekey = None, e_selkey = None, e_sprfkey = None, e_votefst = None,
       e_votelst = None, e_votekd = None, e_nonpart = None,
       e_caid = None, e_apar = None,
       e_xaid = None, e_aamt = None, e_arcv = None, e_aclose = None, e_asnd = None,
       e_faid = None, e_afrz = None, e_fadd = None,
       e_apid = None, e_apan = None, e_apaa = None, e_apat = None, e_apas = None,
       e_apfa = None, e_apbx = None, e_apap = None, e_apsu = None, e_apls = None,
       e_apgs = None, e_apep = None,
       e_sptype = None, e_spmsg = None, e_sp = None \<rparr>"

definition payment_for_encoding ::
  "PaymentTransactionFields \<Rightarrow> EncodedTransaction \<Rightarrow> EncodedTransaction" where
  "payment_for_encoding p forEncoding =
     forEncoding
       \<lparr> e_amt := emit_if (pay_amount p \<noteq> 0) (pay_amount p),
         e_rcv := emit_if (\<not> uint8ArrayIsEmpty (publicKey (pay_receiver p)))
                    (publicKey (pay_receiver p)),
         e_close := emit_opt (pay_closeRemainderTo p) publicKey \<rparr>"

definition keyreg_for_encoding ::
  "KeyRegistrationTransactionFields \<Rightarrow> EncodedTransaction \<Rightarrow> EncodedTransaction" where
  "keyreg_for_encoding k forEncoding =
     forEncoding
       \<lparr> e_votekey := emit_opt (voteKey k) (\<lambda>b. b),
         e_selkey := emit_opt (selectionKey k) (\<lambda>b. b),
         e_sprfkey := emit_opt (stateProofKey k) (\<lambda>b. b),
         e_votefst := emit_int (voteFirst k),
         e_votelst := emit_int (voteLast k),
         e_votekd := emit_int (voteKeyDilution k),
         e_nonpart := emit_if (nonParticipation k) (nonParticipation k) \<rparr>"

definition asset_params_for_encoding :: "AssetConfigTransactionFields \<Rightarrow> EncodedAssetParams" where
  "asset_params_for_encoding c =
     \<lparr> apar_t = emit_if (assetTotal c \<noteq> 0) (assetTotal c),
       apar_dc = emit_if (assetDecimals c \<noteq> 0) (assetDecimals c),
       apar_df = emit_if (assetDefaultFrozen c) (assetDefaultFrozen c),
       apar_m = emit_opt (assetManager c) publicKey,
       apar_r = emit_opt (assetReserve c) publicKey,
       apar_f = emit_opt (assetFreezeAddr c) publicKey,
       apar_c = emit_opt (assetClawback c) publicKey,
       apar_un = emit_if (assetUnitName c \<noteq> []) (assetUnitName c),
       apar_an = emit_if (assetName c \<noteq> []) (assetName c),
       apar_au = emit_if (assetURL c \<noteq> []) (assetURL c),
       apar_am = emit_opt (assetMetadataHash c) (\<lambda>b. b) \<rparr>"

definition assetConfig_for_encoding ::
  "AssetConfigTransactionFields \<Rightarrow> EncodedTransaction \<Rightarrow> EncodedTransaction" where
  "assetConfig_for_encoding c forEncoding =
     (let assetParams = asset_params_for_encoding c in
      forEncoding
        \<lparr> e_caid := emit_if (acfg_assetId c \<noteq> 0) (acfg_assetId c),
          e_apar := emit_if (assetParams \<noteq> no_asset_params) assetParams \<rparr>)"

definition assetTransfer_for_encoding ::
  "AssetTransferTransactionFields \<Rightarrow> EncodedTransaction \<Rightarrow> EncodedTransaction" where
  "assetTransfer_for_encoding a forEncoding =
     forEncoding
       \<lparr> e_xaid := emit_if (axfer_assetId a \<noteq> 0) (axfer_assetId a),
         e_aamt := emit_if (axfer_amount a \<noteq> 0) (axfer_amount a),
         e_arcv := emit_if (\<not> uint8ArrayIsEmpty (publicKey (axfer_receiver a)))
                     (publicKey (axfer_receiver a)),
         e_aclose := emit_opt (axfer_closeRemainderTo a) publicKey,
         e_asnd := emit_opt (axfer_sender a) publicKey \<rparr>"

definition assetFreeze_for_encoding ::
  "AssetFreezeTransactionFields \<Rightarrow> EncodedTransaction \<Rightarrow> EncodedTransaction" where
  "assetFreeze_for_encoding f forEncoding =
     forEncoding
       \<lparr> e_faid := emit_if (afrz_assetId f \<noteq> 0) (afrz_assetId f),
         e_afrz := emit_if (assetFrozen f) (assetFrozen f),
         e_fadd := emit_if (\<not> uint8ArrayIsEmpty (publicKey (freezeAccount f)))
                     (publicKey (freezeAccount f)) \<rparr>"

definition applicationCall_for_encoding ::
  "ApplicationTransactionFields \<Rightarrow> EncodedTransaction \<Rightarrow> error + EncodedTransaction" where
  "applicationCall_for_encoding a forEncoding =
     bind (if length (boxes a) \<noteq> 0
           then bind (translateBoxReferences (boxes a) (appForeignApps a) (appId a))
                  (\<lambda>bx. Inr (Some bx))
           else Inr None) (\<lambda>apbx.
     Inr (forEncoding
       \<lparr> e_apid := emit_if (appId a \<noteq> 0) (appId a),
         e_apan := emit_if (appOnComplete a \<noteq> 0) (appOnComplete a),
         e_apaa := emit_if (length (appArgs a) \<noteq> 0) (appArgs a),
         e_apat := emit_if (length (appAccounts a) \<noteq> 0) (map publicKey (appAccounts a)),
         e_apas := emit_if (length (appForeignAssets a) \<noteq> 0) (appForeignAssets a),
         e_apfa := emit_if (length (appForeignApps a) \<noteq> 0) (appForeignApps a),
         e_apbx := apbx,
         e_apap := emit_if (length (appApprovalProgram a) \<noteq> 0) (appApprovalProgram a),
         e_apsu := emit_if (length (appClearProgram a) \<noteq> 0) (appClearProgram a),
         e_apls := emit_if (appLocalInts a \<noteq> 0 \<or> appLocalByteSlices a \<noteq> 0)
                     \<lparr> apls_nui = emit_if (appLocalInts a \<noteq> 0) (appLocalInts a),
                       apls_nbs = emit_if (appLocalByteSlices a \<noteq> 0) (appLocalByteSlices a) \<rparr>,
         e_apgs := emit_if (appGlobalInts a \<noteq> 0 \<or> appGlobalByteSlices a \<noteq> 0)
                     \<lparr> apgs_nui = emit_if (appGlobalInts a \<noteq> 0) (appGlobalInts a),
                       apgs_nbs = emit_if (appGlobalByteSlices a \<noteq> 0) (appGlobalByteSlices a) \<rparr>,
         e_apep := emit_if (extraPages a \<noteq> 0) (extraPages a) \<rparr>))"

definition stateProof_for_encoding ::
  "StateProofTransactionFields \<Rightarrow> EncodedTransaction \<Rightarrow> EncodedTransaction" where
  "stateProof_for_encoding s forEncoding =
     forEncoding
       \<lparr> e_sptype := emit_if (stateProofType s \<noteq> 0) (stateProofType s),
         e_spmsg := Some (stateProofMessage s),
         e_sp := Some (stpf_stateProof s) \<rparr>"

text \<open>
  \<^verbatim>\<open>get_obj_for_encoding\<close>: the common keys, then the keys of the first payload that is
  set, in the order of the source's \<^verbatim>\<open>if (this.payment) ... return\<close> chain; with no
  payload it throws.
\<close>

definition get_obj_for_encoding :: "Transaction \<Rightarrow> error + EncodedTransaction" where
  "get_obj_for_encoding t =
     (let forEncoding = common_for_encoding t in
      (case payment t of Some p \<Rightarrow> Inr (payment_for_encoding p forEncoding) | None \<Rightarrow>
      (case keyreg t of Some k \<Rightarrow> Inr (keyreg_for_encoding k forEncoding) | None \<Rightarrow>
      (case assetConfig t of Some c \<Rightarrow> Inr (assetConfig_for_encoding c forEncoding) | None \<Rightarrow>
      (case assetTransfer t of Some a \<Rightarrow> Inr (assetTransfer_for_encoding a forEncoding) | None \<Rightarrow>
      (case assetFreeze t of Some f \<Rightarrow> Inr (assetFreeze_for_encoding f forEncoding) | None \<Rightarrow>
      (case applicationCall t of Some a \<Rightarrow> applicationCall_for_encoding a forEncoding | None \<Rightarrow>
      (case stateProof t of Some s \<Rightarrow> Inr (stateProof_for_encoding s forEncoding) | None \<Rightarrow>
       Inl UnexpectedTransactionType))))))))"

definition toByte :: "ext \<Rightarrow> Transaction \<Rightarrow> error + bytes" where
  "toByte x t = bind (get_obj_for_encoding t) (\<lambda>obj. Inr (msgpack_encode x obj))"

definition estimateSize :: "ext \<Rightarrow> Transaction \<Rightarrow> error + nat" where
  "estimateSize x t = bind (toByte x t) (\<lambda>b. Inr (length b + NUM_ADDL_BYTES_AFTER_SIGNING))"

definition bytesToSign :: "ext \<Rightarrow> Transaction \<Rightarrow> error + bytes" where
  "bytesToSign x t = bind (toByte x t) (\<lambda>encodedMsg. Inr (TX_TAG @ encodedMsg))"

definition rawTxID :: "ext \<Rightarrow> Transaction \<Rightarrow> error + bytes" where
  "rawTxID x t = bind (toByte x t) (\<lambda>enMsg. Inr (genericHash x (TX_TAG @ enMsg)))"

definition txID :: "ext \<Rightarrow> Transaction \<Rightarrow> error + string" where
  "txID x t =
     bind (rawTxID x t) (\<lambda>hash. Inr (take ALGORAND_TRANSACTION_LENGTH (base32_encode x hash)))"

section \<open>The constructor\<close>

text \<open>The payload blocks of the constructor, each in the order of its object literal.\<close>

definition payment_fields ::
  "ext \<Rightarrow> PaymentTransactionParams \<Rightarrow> error + PaymentTransactionFields" where
  "payment_fields x pp =
     bind (ensureAddress x (pp_receiver pp)) (\<lambda>receiver.
     bind (ensureUint64 (pp_amount pp)) (\<lambda>amount.
     bind (optionalAddress x (pp_closeRemainderTo pp)) (\<lambda>closeRemainderTo.
     Inr \<lparr> pay_receiver = receiver, pay_amount = amount,
           pay_closeRemainderTo = closeRemainderTo \<rparr>)))"

definition keyreg_fields ::
  "ext \<Rightarrow> KeyRegistrationTransactionParams \<Rightarrow> error + KeyRegistrationTransactionFields" where
  "keyreg_fields x kp =
     bind (getKeyregKey x (kp_voteKey kp) KEYREG_VOTE_KEY_LENGTH) (\<lambda>vk.
     bind (getKeyregKey x (kp_selectionKey kp) KEYREG_SELECTION_KEY_LENGTH) (\<lambda>sk.
     bind (getKeyregKey x (kp_stateProofKey kp) KEYREG_STATE_PROOF_KEY_LENGTH) (\<lambda>spk.
     bind (optionalUint64 (kp_voteFirst kp)) (\<lambda>vf.
     bind (optionalUint64 (kp_voteLast kp)) (\<lambda>vl.
     bind (optionalUint64 (kp_voteKeyDilution kp)) (\<lambda>vkd.
     let k = \<lparr> voteKey = vk, selectionKey = sk, stateProofKey = spk, voteFirst = vf,
               voteLast = vl, voteKeyDilution = vkd,
               nonParticipation = nullish (kp_nonParticipation kp) False \<rparr>
     in if nonParticipation k \<and>
           (voteKey k \<noteq> None \<or> selectionKey k \<noteq> None \<or> stateProofKey k \<noteq> None \<or>
            voteFirst k \<noteq> None \<or> voteLast k \<noteq> None \<or> voteKeyDilution k \<noteq> None)
        then Inl NonParticipationWithParams
        else if \<not> nonParticipation k \<and>
           (voteKey k \<noteq> None \<or> selectionKey k \<noteq> None \<or> stateProofKey k \<noteq> None \<or>
            voteFirst k \<noteq> None \<or> voteLast k \<noteq> None \<or> voteKeyDilution k \<noteq> None) \<and>
           \<not> (voteKey k \<noteq> None \<and> selectionKey k \<noteq> None \<and> voteFirst k \<noteq> None \<and>
              voteLast k \<noteq> None \<and> voteKeyDilution k \<noteq> None)
        then Inl OnlineKeyregMissingFields
        else Inr k))))))"

definition assetConfig_fields ::
  "ext \<Rightarrow> AssetConfigurationTransactionParams \<Rightarrow> error + AssetConfigTransactionFields" where
  "assetConfig_fields x cp =
     bind (ensureUint64 (nullish (cp_assetIndex cp) 0)) (\<lambda>aid.
     bind (ensureUint64 (nullish (cp_total cp) 0)) (\<lambda>total.
     bind (ensureSafeUnsignedInteger x (nullish (cp_decimals cp) 0)) (\<lambda>decimals.
     bind (optionalAddress x (cp_manager cp)) (\<lambda>manager.
     bind (optionalAddress x (cp_reserve cp)) (\<lambda>reserve.
     bind (optionalAddress x (cp_freeze cp)) (\<lambda>freeze.
     bind (optionalAddress x (cp_clawback cp)) (\<lambda>clawback.
     bind (optionalFixedLengthByteArray (cp_assetMetadataHash cp) ASSET_METADATA_HASH_LENGTH)
       (\<lambda>metadataHash.
     Inr \<lparr> acfg_assetId = aid, assetTotal = total, assetDecimals = decimals,
           assetDefaultFrozen = nullish (cp_defaultFrozen cp) False,
           assetManager = manager, assetReserve = reserve, assetFreezeAddr = freeze,
           assetClawback = clawback,
           assetUnitName = nullish (cp_unitName cp) [],
           assetName = nullish (cp_assetName cp) [],
           assetURL = nullish (cp_assetURL cp) [],
           assetMetadataHash = metadataHash \<rparr>))))))))"

definition assetTransfer_fields ::
  "ext \<Rightarrow> AssetTransferTransactionParams \<Rightarrow> error + AssetTransferTransactionFields" where
  "assetTransfer_fields x xp =
     bind (ensureUint64 (xp_assetIndex xp)) (\<lambda>aid.
     bind (ensureUint64 (xp_amount xp)) (\<lambda>amount.
     bind (optionalAddress x (xp_assetSender xp)) (\<lambda>asender.
     bind (ensureAddress x (xp_receiver xp)) (\<lambda>receiver.
     bind (optionalAddress x (xp_closeRemainderTo xp)) (\<lambda>closeRemainderTo.
     Inr \<lparr> axfer_assetId = aid, axfer_amount = amount, axfer_sender = asender,
           axfer_receiver = receiver, axfer_closeRemainderTo = closeRemainderTo \<rparr>)))))"

definition assetFreeze_fields ::
  "ext \<Rightarrow> AssetFreezeTransactionParams \<Rightarrow> error + AssetFreezeTransactionFields" where
  "assetFreeze_fields x fp =
     bind (ensureUint64 (fp_assetIndex fp)) (\<lambda>aid.
     bind (ensureAddress x (fp_freezeTarget fp)) (\<lambda>target.
     Inr \<lparr> afrz_assetId = aid, freezeAccount = target, assetFrozen = fp_assetFrozen fp \<rparr>))"

definition applicationCall_fields ::
  "ext \<Rightarrow> ApplicationCallTransactionParams \<Rightarrow> error + ApplicationTransactionFields" where
  "applicationCall_fields x ap =
     bind (ensureUint64 (ap_appId ap)) (\<lambda>aid.
     bind (ensureSafeUnsignedInteger x (nullish (ap_numLocalInts ap) 0)) (\<lambda>li.
     bind (ensureSafeUnsignedInteger x (nullish (ap_numLocalByteSlices ap) 0)) (\<lambda>lb.
     bind (ensureSafeUnsignedInteger x (nullish (ap_numGlobalInts ap) 0)) (\<lambda>gi.
     bind (ensureSafeUnsignedInteger x (nullish (ap_numGlobalByteSlices ap) 0)) (\<lambda>gb.
     bind (ensureSafeUnsignedInteger x (nullish (ap_extraPages ap) 0)) (\<lambda>ep.
     bind (map_err (ensureAddress x) (nullish (ap_accounts ap) [])) (\<lambda>accounts.
     bind (map_err ensureUint64 (nullish (ap_foreignApps ap) [])) (\<lambda>foreignApps.
     bind (map_err ensureUint64 (nullish (ap_foreignAssets ap) [])) (\<lambda>foreignAssets.
     bind (map_err ensureBoxReference (nullish (ap_boxes ap) [])) (\<lambda>bxs.
     Inr \<lparr> appId = aid, appOnComplete = ap_onComplete ap,
           appLocalInts = li, appLocalByteSlices = lb,
           appGlobalInts = gi, appGlobalByteSlices = gb, extraPages = ep,
           appApprovalProgram = nullish (ap_approvalProgram ap) [],
           appClearProgram = nullish (ap_clearProgram ap) [],
           appArgs = nullish (ap_appArgs ap) [],
           appAccounts = accounts, appForeignApps = foreignApps,
           appForeignAssets = foreignAssets, boxes = bxs \<rparr>))))))))))"

definition stateProof_fields ::
  "ext \<Rightarrow> StateProofTransactionParams \<Rightarrow> error + StateProofTransactionFields" where
  "stateProof_fields x spp =
     bind (ensureSafeUnsignedInteger x (nullish (spp_stateProofType spp) 0)) (\<lambda>ty.
     Inr \<lparr> stateProofType = ty,
           stpf_stateProof = nullish (spp_stateProof spp) [],
           stateProofMessage = nullish (spp_stateProofMessage spp) [] \<rparr>)"

text \<open>The list \<^verbatim>\<open>fieldsPresent\<close>: one entry per payload parameter that is set.\<close>

definition fieldsPresent :: "TransactionParams \<Rightarrow> string list" where
  "fieldsPresent params =
     (if tp_paymentParams params \<noteq> None then [''pay''] else []) @
     (if tp_keyregParams params \<noteq> None then [''keyreg''] else []) @
     (if tp_assetConfigParams params \<noteq> None then [''acfg''] else []) @
     (if tp_assetTransferParams params \<noteq> None then [''axfer''] else []) @
     (if tp_assetFreezeParams params \<noteq> None then [''afrz''] else []) @
     (if tp_appCallParams params \<noteq> None then [''appl''] else []) @
     (if tp_stateProofParams params \<noteq> None then [''stpf''] else [])"

text \<open>
  The last block of the constructor (\<^verbatim>\<open>Determine fee\<close>), on the transaction \<open>t\<close> whose
  other fields are set: \<^verbatim>\<open>this.fee\<close> is first the suggested fee, and is multiplied by
  \<^verbatim>\<open>this.estimateSize()\<close>, which encodes \<^verbatim>\<open>this\<close> with that fee in it.
\<close>

definition determine_fee :: "ext \<Rightarrow> SuggestedParams \<Rightarrow> Transaction \<Rightarrow> error + Transaction" where
  "determine_fee x sp t0 =
     bind (ensureUint64 (sp_fee sp)) (\<lambda>fee0.
     let t = t0 \<lparr> fee := fee0 \<rparr>;
         feeDependsOnSize = (\<not> nullish (sp_flatFee sp) False)
     in if feeDependsOnSize
        then bind (ensureUint64 (sp_minFee sp)) (\<lambda>minFee.
             bind (estimateSize x t) (\<lambda>size.
             let f = fee t * int size
             in Inr (t \<lparr> fee := (if f < minFee then minFee else f) \<rparr>)))
        else Inr t)"

text \<open>
  \<^verbatim>\<open>new Transaction(params)\<close>. Before the fee block the field \<open>fee\<close> is not assigned; the
  model holds 0 there, which \<open>determine_fee\<close> overwrites before it is read.
\<close>

definition Transaction_new :: "ext \<Rightarrow> TransactionParams \<Rightarrow> error + Transaction" where
  "Transaction_new x params =
     (if \<not> isTransactionType (tp_type params) then Inl InvalidTransactionType else
      bind (ensureAddress x (tp_sender params)) (\<lambda>snd'.
      bind (optionalFixedLengthByteArray (tp_lease params) ALGORAND_TRANSACTION_LEASE_LENGTH)
        (\<lambda>lease'.
      bind (optionalAddress x (tp_rekeyTo params)) (\<lambda>rekeyTo'.
      bind (ensureUint64 (sp_firstValid (tp_suggestedParams params))) (\<lambda>firstValid'.
      bind (ensureUint64 (sp_lastValid (tp_suggestedParams params))) (\<lambda>lastValid'.
      bind (case sp_genesisHash (tp_suggestedParams params) of
              None \<Rightarrow> Inl GenesisHashMissing
            | Some gh \<Rightarrow> if gh = [] then Inl GenesisHashMissing
                         else Inr (base64ToBytes x gh)) (\<lambda>genesisHash'.
      if length (fieldsPresent params) \<noteq> 1
      then Inl (WrongNumberOfTypeFields (length (fieldsPresent params)))
      else if tp_type params \<noteq> fieldsPresent params ! 0 then Inl TypeFieldsMismatch else
      bind (when_present (payment_fields x) (tp_paymentParams params)) (\<lambda>payment'.
      bind (when_present (keyreg_fields x) (tp_keyregParams params)) (\<lambda>keyreg'.
      bind (when_present (assetConfig_fields x) (tp_assetConfigParams params)) (\<lambda>assetConfig'.
      bind (when_present (assetTransfer_fields x) (tp_assetTransferParams params))
        (\<lambda>assetTransfer'.
      bind (when_present (assetFreeze_fields x) (tp_assetFreezeParams params)) (\<lambda>assetFreeze'.
      bind (when_present (applicationCall_fields x) (tp_appCallParams params))
        (\<lambda>applicationCall'.
      bind (when_present (stateProof_fields x) (tp_stateProofParams params)) (\<lambda>stateProof'.
      determine_fee x (tp_suggestedParams params)
        \<lparr> txn_type = tp_type params,
          sender = snd',
          txn_note = nullish (tp_note params) [],
          lease = lease',
          rekeyTo = rekeyTo',
          group = [],
          fee = 0,
          firstValid = firstValid',
          lastValid = lastValid',
          genesisID = emit_str (sp_genesisID (tp_suggestedParams params)),
          genesisHash = genesisHash',
          payment = payment',
          keyreg = keyreg',
          assetConfig = assetConfig',
          assetTransfer = assetTransfer',
          assetFreeze = assetFreeze',
          applicationCall = applicationCall',
          stateProof = stateProof' \<rparr>))))))))))))))"

section \<open>The decoder\<close>

text \<open>\<^verbatim>\<open>pk ? address.encodeAddress(pk) : address.ALGORAND_ZERO_ADDRESS_STRING\<close>\<close>

definition address_or_zero :: "ext \<Rightarrow> bytes option \<Rightarrow> addr_in" where
  "address_or_zero x pk =
     AddrStr (case pk of Some b \<Rightarrow> encodeAddress x b | None \<Rightarrow> ALGORAND_ZERO_ADDRESS_STRING x)"

text \<open>\<^verbatim>\<open>if (pk) { params.f = address.encodeAddress(pk) }\<close>\<close>

definition address_if_present :: "ext \<Rightarrow> bytes option \<Rightarrow> addr_in option" where
  "address_if_present x pk = map_option (\<lambda>b. AddrStr (encodeAddress x b)) pk"

text \<open>The function mapped over \<^verbatim>\<open>txnForEnc.apbx\<close>.\<close>

definition decode_box :: "ext \<Rightarrow> int list option \<Rightarrow> EncodedBoxReference \<Rightarrow> error + BoxReference" where
  "decode_box x foreignApps box =
     bind (ensureSafeUnsignedInteger x (nullish (bx_i box) 0)) (\<lambda>index.
     let name = nullish (bx_n box) [] in
     if index = 0 then Inr \<lparr> br_appIndex = 0, br_name = name \<rparr>
     else (case foreignApps of
             None \<Rightarrow> Inl ForeignAppIndexNotFound
           | Some fa \<Rightarrow>
               if index > int (length fa) then Inl ForeignAppIndexNotFound
               else Inr \<lparr> br_appIndex = fa ! (nat index - 1), br_name = name \<rparr>))"

definition decoded_suggestedParams :: "ext \<Rightarrow> EncodedTransaction \<Rightarrow> SuggestedParams" where
  "decoded_suggestedParams x txnForEnc =
     \<lparr> sp_flatFee = Some True,
       sp_fee = nullish (e_fee txnForEnc) 0,
       sp_minFee = 0,
       sp_firstValid = nullish (e_fv txnForEnc) 0,
       sp_lastValid = e_lv txnForEnc,
       sp_genesisID = e_gen txnForEnc,
       sp_genesisHash = Some (bytesToBase64 x (e_gh txnForEnc)) \<rparr>"

definition decoded_common_params :: "ext \<Rightarrow> EncodedTransaction \<Rightarrow> TransactionParams" where
  "decoded_common_params x txnForEnc =
     \<lparr> tp_type = e_type txnForEnc,
       tp_sender = address_or_zero x (e_snd txnForEnc),
       tp_note = e_note txnForEnc,
       tp_lease = e_lx txnForEnc,
       tp_rekeyTo = address_if_present x (e_rekey txnForEnc),
       tp_suggestedParams = decoded_suggestedParams x txnForEnc,
       tp_paymentParams = None, tp_keyregParams = None, tp_assetConfigParams = None,
       tp_assetTransferParams = None, tp_assetFreezeParams = None, tp_appCallParams = None,
       tp_stateProofParams = None \<rparr>"

definition decoded_paymentParams :: "ext \<Rightarrow> EncodedTransaction \<Rightarrow> PaymentTransactionParams" where
  "decoded_paymentParams x txnForEnc =
     \<lparr> pp_receiver = address_or_zero x (e_rcv txnForEnc),
       pp_amount = nullish (e_amt txnForEnc) 0,
       pp_closeRemainderTo = address_if_present x (e_close txnForEnc) \<rparr>"

definition decoded_keyregParams :: "EncodedTransaction \<Rightarrow> KeyRegistrationTransactionParams" where
  "decoded_keyregParams txnForEnc =
     \<lparr> kp_voteKey = map_option KeyBytes (e_votekey txnForEnc),
       kp_selectionKey = map_option KeyBytes (e_selkey txnForEnc),
       kp_stateProofKey = map_option KeyBytes (e_sprfkey txnForEnc),
       kp_voteFirst = e_votefst txnForEnc,
       kp_voteLast = e_votelst txnForEnc,
       kp_voteKeyDilution = e_votekd txnForEnc,
       kp_nonParticipation = e_nonpart txnForEnc \<rparr>"

definition decoded_assetConfigParams ::
  "ext \<Rightarrow> EncodedTransaction \<Rightarrow> AssetConfigurationTransactionParams" where
  "decoded_assetConfigParams x txnForEnc =
     (case e_apar txnForEnc of
        None \<Rightarrow>
          \<lparr> cp_assetIndex = e_caid txnForEnc, cp_total = None, cp_decimals = None,
            cp_defaultFrozen = None, cp_manager = None, cp_reserve = None, cp_freeze = None,
            cp_clawback = None, cp_unitName = None, cp_assetName = None, cp_assetURL = None,
            cp_assetMetadataHash = None \<rparr>
      | Some apar \<Rightarrow>
          \<lparr> cp_assetIndex = e_caid txnForEnc, cp_total = apar_t apar,
            cp_decimals = apar_dc apar, cp_defaultFrozen = apar_df apar,
            cp_manager = address_if_present x (apar_m apar),
            cp_reserve = address_if_present x (apar_r apar),
            cp_freeze = address_if_present x (apar_f apar),
            cp_clawback = address_if_present x (apar_c apar),
            cp_unitName = apar_un apar, cp_assetName = apar_an apar,
            cp_assetURL = apar_au apar, cp_assetMetadataHash = apar_am apar \<rparr>)"

definition decoded_assetTransferParams ::
  "ext \<Rightarrow> EncodedTransaction \<Rightarrow> AssetTransferTransactionParams" where
  "decoded_assetTransferParams x txnForEnc =
     \<lparr> xp_assetIndex = nullish (e_xaid txnForEnc) 0,
       xp_amount = nullish (e_aamt txnForEnc) 0,
       xp_assetSender = address_if_present x (e_asnd txnForEnc),
       xp_receiver = address_or_zero x (e_arcv txnForEnc),
       xp_closeRemainderTo = address_if_present x (e_aclose txnForEnc) \<rparr>"

definition decoded_assetFreezeParams ::
  "ext \<Rightarrow> EncodedTransaction \<Rightarrow> AssetFreezeTransactionParams" where
  "decoded_assetFreezeParams x txnForEnc =
     \<lparr> fp_assetIndex = nullish (e_faid txnForEnc) 0,
       fp_freezeTarget = address_or_zero x (e_fadd txnForEnc),
       fp_assetFrozen = nullish (e_afrz txnForEnc) False \<rparr>"

definition decoded_appCallParams ::
  "ext \<Rightarrow> EncodedTransaction \<Rightarrow> error + ApplicationCallTransactionParams" where
  "decoded_appCallParams x txnForEnc =
     bind (ensureSafeUnsignedInteger x (nullish (e_apan txnForEnc) 0)) (\<lambda>onComplete.
     let appCallParams =
       \<lparr> ap_appId = nullish (e_apid txnForEnc) 0,
         ap_onComplete = onComplete,
         ap_numLocalInts = (case e_apls txnForEnc of None \<Rightarrow> None | Some l \<Rightarrow> apls_nui l),
         ap_numLocalByteSlices = (case e_apls txnForEnc of None \<Rightarrow> None | Some l \<Rightarrow> apls_nbs l),
         ap_numGlobalInts = (case e_apgs txnForEnc of None \<Rightarrow> None | Some g \<Rightarrow> apgs_nui g),
         ap_numGlobalByteSlices = (case e_apgs txnForEnc of None \<Rightarrow> None | Some g \<Rightarrow> apgs_nbs g),
         ap_extraPages = e_apep txnForEnc,
         ap_approvalProgram = e_apap txnForEnc,
         ap_clearProgram = e_apsu txnForEnc,
         ap_appArgs = e_apaa txnForEnc,
         ap_accounts = Some (map (\<lambda>b. AddrStr (encodeAddress x b)) (nullish (e_apat txnForEnc) [])),
         ap_foreignApps = e_apfa txnForEnc,
         ap_foreignAssets = e_apas txnForEnc,
         ap_boxes = None \<rparr>
     in (case e_apbx txnForEnc of
           None \<Rightarrow> Inr appCallParams
         | Some apbx \<Rightarrow>
             bind (map_err (decode_box x (ap_foreignApps appCallParams)) apbx) (\<lambda>bxs.
             Inr (appCallParams \<lparr> ap_boxes := Some bxs \<rparr>))))"

definition decoded_stateProofParams :: "EncodedTransaction \<Rightarrow> StateProofTransactionParams" where
  "decoded_stateProofParams txnForEnc =
     \<lparr> spp_stateProofType = e_sptype txnForEnc,
       spp_stateProof = e_sp txnForEnc,
       spp_stateProofMessage = e_spmsg txnForEnc \<rparr>"

text \<open>The parameter record \<^verbatim>\<open>from_obj_for_encoding\<close> builds before it calls the constructor.\<close>

definition decoded_params :: "ext \<Rightarrow> EncodedTransaction \<Rightarrow> error + TransactionParams" where
  "decoded_params x txnForEnc =
     (if \<not> isTransactionType (e_type txnForEnc) then Inl InvalidTransactionType else
      let params = decoded_common_params x txnForEnc in
      if tp_type params = ''pay''
      then Inr (params \<lparr> tp_paymentParams := Some (decoded_paymentParams x txnForEnc) \<rparr>)
      else if tp_type params = ''keyreg''
      then Inr (params \<lparr> tp_keyregParams := Some (decoded_keyregParams txnForEnc) \<rparr>)
      else if tp_type params = ''acfg''
      then Inr (params \<lparr> tp_assetConfigParams := Some (decoded_assetConfigParams x txnForEnc) \<rparr>)
      else if tp_type params = ''axfer''
      then Inr (params \<lparr> tp_assetTransferParams := Some (decoded_assetTransferParams x txnForEnc) \<rparr>)
      else if tp_type params = ''afrz''
      then Inr (params \<lparr> tp_assetFreezeParams := Some (decoded_assetFreezeParams x txnForEnc) \<rparr>)
      else if tp_type params = ''appl''
      then bind (decoded_appCallParams x txnForEnc) (\<lambda>appCallParams.
           Inr (params \<lparr> tp_appCallParams := Some appCallParams \<rparr>))
      else if tp_type params = ''stpf''
      then Inr (params \<lparr> tp_stateProofParams := Some (decoded_stateProofParams txnForEnc) \<rparr>)
      else Inl UnexpectedTransactionType)"

definition from_obj_for_encoding :: "ext \<Rightarrow> EncodedTransaction \<Rightarrow> error + Transaction" where
  "from_obj_for_encoding x txnForEnc =
     bind (decoded_params x txnForEnc) (\<lambda>params.
     bind (Transaction_new x params) (\<lambda>txn.
     (case e_grp txnForEnc of
        None \<Rightarrow> Inr txn
      | Some grp \<Rightarrow>
          if length grp \<noteq> ALGORAND_TRANSACTION_GROUP_LENGTH
          then Inl (InvalidGroupLength (length grp))
          else Inr (txn \<lparr> group := grp \<rparr>))))"

section \<open>The multisig coordinator\<close>

text \<open>
  Modelled from the spec: \<^verbatim>\<open>utils.arrayEqual\<close> is imported, not defined in the source
  files. The spec: overlapping signatures must be byte-equal.
\<close>

definition arrayEqual :: "bytes \<Rightarrow> bytes \<Rightarrow> bool" where
  "arrayEqual a b = (a = b)"

text \<open>\<^verbatim>\<open>address.encodeAddress(address.fromMultisigPreImg({version, threshold, pks}))\<close>\<close>

definition multisig_address :: "ext \<Rightarrow> EncodedMultisig \<Rightarrow> error + string" where
  "multisig_address x msig =
     bind (fromMultisigPreImg x (msig_v msig) (msig_thr msig) (map ss_pk (msig_subsig msig)))
       (\<lambda>pk. Inr (encodeAddress x pk))"

text \<open>
  The \<^verbatim>\<open>forEach\<close> that merges the subsigs of one blob into \<^verbatim>\<open>newSubsigs\<close>, slot by slot.
  A signed slot with no counterpart in \<^verbatim>\<open>newSubsigs\<close> reads a property of
  \<^verbatim>\<open>undefined\<close>, a TypeError.
\<close>

fun merge_subsigs :: "EncodedSubsig list \<Rightarrow> EncodedSubsig list \<Rightarrow> error + EncodedSubsig list" where
  "merge_subsigs [] newSubsigs = Inr newSubsigs"
| "merge_subsigs (uniSubsig # us) [] =
     (case ss_s uniSubsig of None \<Rightarrow> merge_subsigs us [] | Some s \<Rightarrow> Inl JsTypeError)"
| "merge_subsigs (uniSubsig # us) (current # cs) =
     (case ss_s uniSubsig of
        None \<Rightarrow> bind (merge_subsigs us cs) (\<lambda>r. Inr (current # r))
      | Some s \<Rightarrow>
          if (case ss_s current of Some cur \<Rightarrow> \<not> arrayEqual s cur | None \<Rightarrow> False)
          then Inl MergeSigMismatch
          else bind (merge_subsigs us cs) (\<lambda>r. Inr (current \<lparr> ss_s := Some s \<rparr> # r)))"

text \<open>What the loop keeps of the first blob.\<close>

record merge_ref =
  refTxID :: string
  refAuthAddr :: "string option"
  refSubsigLength :: nat
  refMsigAddr :: string

text \<open>The loop \<^verbatim>\<open>for (let i = 1; i < multisigTxnBlobs.length; i++)\<close> from index \<open>i\<close> on.\<close>

fun merge_loop ::
  "ext \<Rightarrow> merge_ref \<Rightarrow> nat \<Rightarrow> bytes list \<Rightarrow> EncodedSubsig list \<Rightarrow> error + EncodedSubsig list" where
  "merge_loop x ref i [] newSubsigs = Inr newSubsigs"
| "merge_loop x ref i (blob # rest) newSubsigs =
     bind (decode_stxn x blob) (\<lambda>unisig.
     (case st_msig unisig of
        None \<Rightarrow> Inl (MsigMissing i)
      | Some umsig \<Rightarrow>
          bind (from_obj_for_encoding x (st_txn unisig)) (\<lambda>unisigAlgoTxn.
          bind (txID x unisigAlgoTxn) (\<lambda>tid.
          if tid \<noteq> refTxID ref then Inl MergeTxIDMismatch else
          if refAuthAddr ref \<noteq> map_option (encodeAddress x) (st_sgnr unisig)
          then Inl MergeAuthAddrMismatch else
          if length (msig_subsig umsig) \<noteq> refSubsigLength ref then Inl MergeWrongPreimage else
          bind (multisig_address x umsig) (\<lambda>msgigAddr.
          if refMsigAddr ref \<noteq> msgigAddr then Inl MergeWrongPreimage else
          bind (merge_subsigs (msig_subsig umsig) newSubsigs) (\<lambda>merged.
          merge_loop x ref (i + 1) rest merged))))))"

text \<open>\<^verbatim>\<open>mergeMultisigTransactions\<close> up to the object \<^verbatim>\<open>signedTxn\<close> it encodes in its last line.\<close>

definition merged_signed_txn :: "ext \<Rightarrow> bytes list \<Rightarrow> error + EncodedSignedTransaction" where
  "merged_signed_txn x multisigTxnBlobs =
     (if length multisigTxnBlobs < 2 then Inl MergeLessThanTwo else
      bind (decode_stxn x (multisigTxnBlobs ! 0)) (\<lambda>refSigTx.
      (case st_msig refSigTx of
         None \<Rightarrow> Inl (MsigMissing 0)
       | Some rmsig \<Rightarrow>
           bind (from_obj_for_encoding x (st_txn refSigTx)) (\<lambda>refTxn.
           bind (txID x refTxn) (\<lambda>rtid.
           bind (multisig_address x rmsig) (\<lambda>raddr.
           bind (merge_loop x
                   \<lparr> refTxID = rtid,
                     refAuthAddr = map_option (encodeAddress x) (st_sgnr refSigTx),
                     refSubsigLength = length (msig_subsig rmsig),
                     refMsigAddr = raddr \<rparr>
                   1 (tl multisigTxnBlobs) (msig_subsig rmsig)) (\<lambda>newSubsigs.
           bind (case map_option (encodeAddress x) (st_sgnr refSigTx) of
                   None \<Rightarrow> Inr None
                 | Some a \<Rightarrow> bind (decodeAddress x a) (\<lambda>addr. Inr (Some (publicKey addr))))
             (\<lambda>sgnr.
           Inr \<lparr> st_sig = None,
                 st_txn = st_txn refSigTx,
                 st_msig = Some \<lparr> msig_v = msig_v rmsig, msig_thr = msig_thr rmsig,
                                  msig_subsig = newSubsigs \<rparr>,
                 st_lsig = None,
                 st_sgnr = sgnr \<rparr>))))))))"

definition mergeMultisigTransactions :: "ext \<Rightarrow> bytes list \<Rightarrow> error + bytes" where
  "mergeMultisigTransactions x multisigTxnBlobs =
     bind (merged_signed_txn x multisigTxnBlobs) (\<lambda>signedTxn. Inr (encode_stxn x signedTxn))"




section \<open>Stand-ins for the external collaborators\<close>

text \<open>
  The theorems below hold for every record of collaborators. To run the model on concrete
  inputs some record is needed; \<open>stub_ext\<close> is a small one. Its address and base64
  codecs map a byte to the character with that code and back (an address string is 32
  characters), its msgpack length is that of the genesis hash and the note, its hash
  keeps the first 32 bytes, and a signature verifies when it is the public key followed
  by the message. Nothing is proved about the real codecs from it.
\<close>

definition stub_encodeAddress :: "bytes \<Rightarrow> string" where
  "stub_encodeAddress b = map (\<lambda>w. char_of (unat w)) b"

definition stub_decodeAddress :: "string \<Rightarrow> error + Address" where
  "stub_decodeAddress s =
     (if length s = 32 then Inr \<lparr> publicKey = map (\<lambda>c. of_nat (of_char c)) s, checksum = [] \<rparr>
      else Inl InvalidAddressString)"

definition stub_fromMultisigPreImg :: "int \<Rightarrow> int \<Rightarrow> bytes list \<Rightarrow> error + bytes" where
  "stub_fromMultisigPreImg v thr pks =
     (if v \<noteq> 1 \<or> thr = 0 \<or> pks = [] \<or> thr > int (length pks) then Inl InvalidMsigPreimage
      else Inr (take 32 (concat pks)))"

definition stub_ext :: ext where
  "stub_ext =
     \<lparr> decodeAddress = stub_decodeAddress,
       encodeAddress = stub_encodeAddress,
       ALGORAND_ZERO_ADDRESS_STRING = stub_encodeAddress (replicate 32 0),
       fromMultisigPreImg = stub_fromMultisigPreImg,
       base64ToBytes = map (\<lambda>c. of_nat (of_char c)),
       bytesToBase64 = map (\<lambda>w. char_of (unat w)),
       msgpack_encode = (\<lambda>e. e_gh e @ nullish (e_note e) []),
       encode_stxn = (\<lambda>s. []),
       decode_stxn = (\<lambda>b. Inl MalformedBlob),
       genericHash = (\<lambda>b. take 32 b),
       nacl_verify = (\<lambda>m s pk. s = pk @ m),
       base32_encode = map (\<lambda>w. char_of (unat w)),
       maxSafeUnsigned = 9007199254740991 \<rparr>"

definition alice :: Address where
  "alice = \<lparr> publicKey = replicate 32 1, checksum = [] \<rparr>"

definition bob :: Address where
  "bob = \<lparr> publicKey = replicate 32 2, checksum = [] \<rparr>"

definition zero_address :: Address where
  "zero_address = \<lparr> publicKey = replicate 32 0, checksum = [] \<rparr>"

text \<open>Suggested parameters with a genesis hash of 32 bytes, and with one of 3 bytes.\<close>

definition sample_suggestedParams :: SuggestedParams where
  "sample_suggestedParams =
     \<lparr> sp_flatFee = None, sp_fee = 10, sp_minFee = 1000, sp_firstValid = 1,
       sp_lastValid = 1001, sp_genesisID = Some ''testnet-v1.0'',
       sp_genesisHash = Some ''gggggggggggggggggggggggggggggggg'' \<rparr>"

definition short_hash_suggestedParams :: SuggestedParams where
  "short_hash_suggestedParams = sample_suggestedParams \<lparr> sp_genesisHash := Some ''abc'' \<rparr>"

definition no_payload_params :: TransactionParams where
  "no_payload_params =
     \<lparr> tp_type = [], tp_sender = AddrObj alice, tp_note = None, tp_lease = None,
       tp_rekeyTo = None, tp_suggestedParams = sample_suggestedParams,
       tp_paymentParams = None, tp_keyregParams = None, tp_assetConfigParams = None,
       tp_assetTransferParams = None, tp_assetFreezeParams = None, tp_appCallParams = None,
       tp_stateProofParams = None \<rparr>"

definition sample_payment :: TransactionParams where
  "sample_payment =
     no_payload_params
       \<lparr> tp_type := ''pay'',
         tp_paymentParams :=
           Some \<lparr> pp_receiver = AddrObj bob, pp_amount = 1000, pp_closeRemainderTo = None \<rparr> \<rparr>"

text \<open>The transaction the constructor builds from \<open>sample_payment\<close>: its fee is 10 * (32 + 75).\<close>

definition sample_payment_txn :: Transaction where
  "sample_payment_txn =
     \<lparr> txn_type = ''pay'', sender = alice, txn_note = [], lease = None, rekeyTo = None,
       group = [], fee = 1070, firstValid = 1, lastValid = 1001,
       genesisID = Some ''testnet-v1.0'', genesisHash = replicate 32 103,
       payment = Some \<lparr> pay_receiver = bob, pay_amount = 1000, pay_closeRemainderTo = None \<rparr>,
       keyreg = None, assetConfig = None, assetTransfer = None, assetFreeze = None,
       applicationCall = None, stateProof = None \<rparr>"

text \<open>The same transaction in a group, and its encoding.\<close>

definition grouped_payment_txn :: Transaction where
  "grouped_payment_txn = sample_payment_txn \<lparr> group := replicate 32 7 \<rparr>"

definition grouped_payment_obj :: EncodedTransaction where
  "grouped_payment_obj =
     payment_for_encoding (the (payment grouped_payment_txn)) (common_for_encoding grouped_payment_txn)"

section \<open>Vocabulary of the claims\<close>

text \<open>
  The definitions of this section are not translations of source functions: they name
  the notions the claims are stated with.
\<close>

text \<open>
  A value for an Address slot denotes the zero address when its public key is all zero:
  an \<^verbatim>\<open>Address\<close> object with such a key, or a string that the codec decodes to one.
\<close>

definition is_zero_address :: "ext \<Rightarrow> addr_in \<Rightarrow> bool" where
  "is_zero_address x a =
     (case a of
        AddrObj ad \<Rightarrow> uint8ArrayIsEmpty (publicKey ad)
      | AddrStr s \<Rightarrow> (case decodeAddress x s of
                       Inr ad \<Rightarrow> uint8ArrayIsEmpty (publicKey ad)
                     | Inl e \<Rightarrow> False))"

text \<open>
  The optional Address slots of a parameter record: \<^verbatim>\<open>rekeyTo\<close>, and for the payload
  parameters that are set, payment \<^verbatim>\<open>closeRemainderTo\<close>, asset-config
  \<^verbatim>\<open>manager\<close>/\<^verbatim>\<open>reserve\<close>/\<^verbatim>\<open>freeze\<close>/\<^verbatim>\<open>clawback\<close>, asset-transfer \<^verbatim>\<open>assetSender\<close> and
  \<^verbatim>\<open>closeRemainderTo\<close>.
\<close>

definition optional_address_slots :: "TransactionParams \<Rightarrow> addr_in option list" where
  "optional_address_slots p =
     [tp_rekeyTo p] @
     (case tp_paymentParams p of None \<Rightarrow> [] | Some pp \<Rightarrow> [pp_closeRemainderTo pp]) @
     (case tp_assetConfigParams p of None \<Rightarrow> []
      | Some cp \<Rightarrow> [cp_manager cp, cp_reserve cp, cp_freeze cp, cp_clawback cp]) @
     (case tp_assetTransferParams p of None \<Rightarrow> []
      | Some xp \<Rightarrow> [xp_assetSender xp, xp_closeRemainderTo xp])"

definition zero_rekey_payment :: TransactionParams where
  "zero_rekey_payment = sample_payment \<lparr> tp_rekeyTo := Some (AddrObj zero_address) \<rparr>"

text \<open>A payment whose genesis hash decodes to 3 bytes, and the transaction built from it.\<close>

definition short_hash_payment :: TransactionParams where
  "short_hash_payment = sample_payment \<lparr> tp_suggestedParams := short_hash_suggestedParams \<rparr>"

definition short_hash_txn :: Transaction where
  "short_hash_txn = sample_payment_txn \<lparr> fee := 1000, genesisHash := [97, 98, 99] \<rparr>"

text \<open>
  The three shapes of key-registration parameters. \<^verbatim>\<open>nonParticipation\<close> absent counts as
  false, as in the constructor (\<^verbatim>\<open>?? false\<close>).
\<close>

definition keyreg_no_participation_fields :: "KeyRegistrationTransactionParams \<Rightarrow> bool" where
  "keyreg_no_participation_fields kp =
     (kp_voteKey kp = None \<and> kp_selectionKey kp = None \<and> kp_stateProofKey kp = None \<and>
      kp_voteFirst kp = None \<and> kp_voteLast kp = None \<and> kp_voteKeyDilution kp = None)"

definition keyreg_offline :: "KeyRegistrationTransactionParams \<Rightarrow> bool" where
  "keyreg_offline kp =
     (nullish (kp_nonParticipation kp) False = False \<and> keyreg_no_participation_fields kp)"

definition keyreg_online :: "KeyRegistrationTransactionParams \<Rightarrow> bool" where
  "keyreg_online kp =
     (nullish (kp_nonParticipation kp) False = False \<and>
      kp_voteKey kp \<noteq> None \<and> kp_selectionKey kp \<noteq> None \<and> kp_voteFirst kp \<noteq> None \<and>
      kp_voteLast kp \<noteq> None \<and> kp_voteKeyDilution kp \<noteq> None)"

definition keyreg_nonparticipating :: "KeyRegistrationTransactionParams \<Rightarrow> bool" where
  "keyreg_nonparticipating kp =
     (nullish (kp_nonParticipation kp) False = True \<and> keyreg_no_participation_fields kp)"

text \<open>
  The values of key-registration parameters are well-formed: a key that is present has
  its length (32, 32 and 64 bytes) and a round or dilution that is present is a uint64.
\<close>

definition key_length_ok :: "ext \<Rightarrow> key_in option \<Rightarrow> nat \<Rightarrow> bool" where
  "key_length_ok x k n =
     (case k of
        None \<Rightarrow> True
      | Some (KeyStr s) \<Rightarrow> length (base64ToBytes x s) = n
      | Some (KeyBytes b) \<Rightarrow> length b = n)"

definition uint64_ok :: "int option \<Rightarrow> bool" where
  "uint64_ok v = (case v of None \<Rightarrow> True | Some n \<Rightarrow> 0 \<le> n \<and> n \<le> MAX_UINT_64)"

definition keyreg_values_ok :: "ext \<Rightarrow> KeyRegistrationTransactionParams \<Rightarrow> bool" where
  "keyreg_values_ok x kp =
     (key_length_ok x (kp_voteKey kp) 32 \<and> key_length_ok x (kp_selectionKey kp) 32 \<and>
      key_length_ok x (kp_stateProofKey kp) 64 \<and>
      uint64_ok (kp_voteFirst kp) \<and> uint64_ok (kp_voteLast kp) \<and>
      uint64_ok (kp_voteKeyDilution kp))"

text \<open>Key-registration parameters of each shape, and of none; a key registration.\<close>

definition offline_keyreg_params :: KeyRegistrationTransactionParams where
  "offline_keyreg_params =
     \<lparr> kp_voteKey = None, kp_selectionKey = None, kp_stateProofKey = None, kp_voteFirst = None,
       kp_voteLast = None, kp_voteKeyDilution = None, kp_nonParticipation = None \<rparr>"

definition online_keyreg_params :: KeyRegistrationTransactionParams where
  "online_keyreg_params =
     \<lparr> kp_voteKey = Some (KeyBytes (replicate 32 5)),
       kp_selectionKey = Some (KeyBytes (replicate 32 6)),
       kp_stateProofKey = None, kp_voteFirst = Some 1,
       kp_voteLast = Some 100, kp_voteKeyDilution = Some 10, kp_nonParticipation = Some False \<rparr>"

definition mixed_keyreg_params :: KeyRegistrationTransactionParams where
  "mixed_keyreg_params = offline_keyreg_params \<lparr> kp_voteFirst := Some 1, kp_nonParticipation := Some True \<rparr>"

definition sample_keyreg :: TransactionParams where
  "sample_keyreg =
     no_payload_params \<lparr> tp_type := ''keyreg'', tp_keyregParams := Some offline_keyreg_params \<rparr>"

definition sample_keyreg_txn :: Transaction where
  "sample_keyreg_txn =
     \<lparr> txn_type = ''keyreg'', sender = alice, txn_note = [], lease = None, rekeyTo = None,
       group = [], fee = 1070, firstValid = 1, lastValid = 1001,
       genesisID = Some ''testnet-v1.0'', genesisHash = replicate 32 103,
       payment = None,
       keyreg = Some \<lparr> voteKey = None, selectionKey = None, stateProofKey = None,
                       voteFirst = None, voteLast = None, voteKeyDilution = None,
                       nonParticipation = False \<rparr>,
       assetConfig = None, assetTransfer = None, assetFreeze = None,
       applicationCall = None, stateProof = None \<rparr>"


















text \<open>
  Default elision, as the spec words it: a key is omitted when its value is the default
  (zero, empty, false; all-zero for an address), and an optional value when it is absent.
  \<open>elided_common\<close> and the \<open>elided_\<close> predicate of each payload say which keys of an
  encoding follow the rule.
\<close>


definition elide :: "'a \<Rightarrow> 'a \<Rightarrow> 'a option" where
  "elide dflt v = (if v = dflt then None else Some v)"

definition elide_address :: "Address \<Rightarrow> bytes option" where
  "elide_address a = (if uint8ArrayIsEmpty (publicKey a) then None else Some (publicKey a))"

definition elide_opt :: "'a \<Rightarrow> 'a option \<Rightarrow> 'a option" where
  "elide_opt dflt v = (case v of None \<Rightarrow> None | Some a \<Rightarrow> elide dflt a)"



















section \<open>Vocabulary of the multisig merge\<close>

text \<open>
  What one blob contributes to a merge, as \<^verbatim>\<open>mergeMultisigTransactions\<close> computes it for
  the first blob and again for every later one: the four values that are compared (the
  txID, the auth address, the subsig length and the address derived from the pre-image),
  the decoded signed transaction and its multisig record. And the \<^verbatim>\<open>sgnr\<close> the merged
  object gets from the reference auth address.
\<close>

definition blob_ref ::
  "ext \<Rightarrow> bytes \<Rightarrow> error + (merge_ref \<times> EncodedSignedTransaction \<times> EncodedMultisig)" where
  "blob_ref x blob =
     bind (decode_stxn x blob) (\<lambda>stx.
     (case st_msig stx of
        None \<Rightarrow> Inl (MsigMissing 0)
      | Some m \<Rightarrow>
          bind (from_obj_for_encoding x (st_txn stx)) (\<lambda>txn.
          bind (txID x txn) (\<lambda>tid.
          bind (multisig_address x m) (\<lambda>addr.
          Inr (\<lparr> refTxID = tid,
                 refAuthAddr = map_option (encodeAddress x) (st_sgnr stx),
                 refSubsigLength = length (msig_subsig m),
                 refMsigAddr = addr \<rparr>, stx, m))))))"

definition merged_sgnr :: "ext \<Rightarrow> merge_ref \<Rightarrow> error + bytes option" where
  "merged_sgnr x ref =
     (case refAuthAddr ref of
        None \<Rightarrow> Inr None
      | Some a \<Rightarrow> bind (decodeAddress x a) (\<lambda>addr. Inr (Some (publicKey addr))))"

text \<open>
  The (slot, signature) entries of a subsig list, of a signed transaction and of a blob.
  A blob that does not decode, or has no multisig record, has none.
\<close>

definition slot_signatures :: "EncodedSubsig list \<Rightarrow> (nat \<times> bytes) set" where
  "slot_signatures l =
     set (List.map_filter (\<lambda>k. map_option (Pair k) (ss_s (l ! k))) [0..<length l])"

definition stxn_signatures :: "EncodedSignedTransaction \<Rightarrow> (nat \<times> bytes) set" where
  "stxn_signatures stx =
     (case st_msig stx of None \<Rightarrow> {} | Some m \<Rightarrow> slot_signatures (msig_subsig m))"

definition blob_signatures :: "ext \<Rightarrow> bytes \<Rightarrow> (nat \<times> bytes) set" where
  "blob_signatures x b =
     (case decode_stxn x b of Inl e \<Rightarrow> {} | Inr stx \<Rightarrow> stxn_signatures stx)"

text \<open>
  \<open>covers r l\<close>: the list \<open>r\<close> has, slot by slot, every signature of \<open>l\<close>. A blob is
  accepted by a reference under an upper bound \<open>U\<close> when it passes the four comparisons
  and \<open>U\<close> covers its signatures.
\<close>

definition covers :: "EncodedSubsig list \<Rightarrow> EncodedSubsig list \<Rightarrow> bool" where
  "covers r l = list_all2 (\<lambda>a b. ss_s a = None \<or> ss_s a = ss_s b) l r"

definition accepted :: "ext \<Rightarrow> merge_ref \<Rightarrow> EncodedSubsig list \<Rightarrow> bytes \<Rightarrow> bool" where
  "accepted x ref U b = (\<exists>stx m. blob_ref x b = Inr (ref, stx, m) \<and> covers U (msig_subsig m))"

text \<open>
  The attributes of a blob the merge conditions speak of; an attribute that cannot be
  computed (the blob does not decode, the pre-image derives no address) is \<open>None\<close>.
\<close>

definition blob_msig :: "ext \<Rightarrow> bytes \<Rightarrow> EncodedMultisig option" where
  "blob_msig x b = (case decode_stxn x b of Inl e \<Rightarrow> None | Inr stx \<Rightarrow> st_msig stx)"

definition blob_txID :: "ext \<Rightarrow> bytes \<Rightarrow> string option" where
  "blob_txID x b =
     (case decode_stxn x b of
        Inl e \<Rightarrow> None
      | Inr stx \<Rightarrow>
          (case bind (from_obj_for_encoding x (st_txn stx)) (txID x) of
             Inl e \<Rightarrow> None
           | Inr tid \<Rightarrow> Some tid))"

definition blob_authAddr :: "ext \<Rightarrow> bytes \<Rightarrow> string option" where
  "blob_authAddr x b =
     (case decode_stxn x b of
        Inl e \<Rightarrow> None
      | Inr stx \<Rightarrow> map_option (encodeAddress x) (st_sgnr stx))"

definition blob_subsigs :: "ext \<Rightarrow> bytes \<Rightarrow> EncodedSubsig list" where
  "blob_subsigs x b = (case blob_msig x b of None \<Rightarrow> [] | Some m \<Rightarrow> msig_subsig m)"

definition blob_msigAddr :: "ext \<Rightarrow> bytes \<Rightarrow> string option" where
  "blob_msigAddr x b =
     (case blob_msig x b of
        None \<Rightarrow> None
      | Some m \<Rightarrow> (case multisig_address x m of Inl e \<Rightarrow> None | Inr a \<Rightarrow> Some a))"

text \<open>
  The inputs the merge is to reject: fewer than two blobs; a blob without a multisig
  record; a later blob whose txID, auth address, subsig length or derived multisig
  address is not that of the first blob; two blobs with different signatures in one slot.
\<close>

definition merge_inputs_rejected :: "ext \<Rightarrow> bytes list \<Rightarrow> bool" where
  "merge_inputs_rejected x bs =
     (length bs < 2 \<or>
      (\<exists>b\<in>set bs. blob_msig x b = None) \<or>
      (\<exists>b\<in>set (tl bs). blob_txID x b \<noteq> blob_txID x (bs ! 0)) \<or>
      (\<exists>b\<in>set (tl bs). blob_authAddr x b \<noteq> blob_authAddr x (bs ! 0)) \<or>
      (\<exists>b\<in>set (tl bs). length (blob_subsigs x b) \<noteq> length (blob_subsigs x (bs ! 0))) \<or>
      (\<exists>b\<in>set (tl bs). blob_msigAddr x b \<noteq> blob_msigAddr x (bs ! 0)) \<or>
      (\<exists>b\<in>set bs. \<exists>b'\<in>set bs.
          \<exists>p\<in>blob_signatures x b. \<exists>p'\<in>blob_signatures x b'. fst p = fst p' \<and> snd p \<noteq> snd p'))"



section \<open>Sample multisig blobs\<close>

text \<open>
  A 2-of-3 multisig over the sample payment with auth address \<open>replicate 32 9\<close>, and a
  codec given by a table: the blobs \<open>[1]\<close>, \<open>[2]\<close> and \<open>[3]\<close> carry one signature each, in
  slot 0, 1 and 2; \<open>[4]\<close> carries another signature in slot 0; \<open>[12]\<close>, \<open>[23]\<close> and \<open>[123]\<close>
  are the blobs of the merged objects.
\<close>

definition sample_payment_obj :: EncodedTransaction where
  "sample_payment_obj =
     payment_for_encoding (the (payment sample_payment_txn)) (common_for_encoding sample_payment_txn)"

definition partial_stxn ::
  "bytes option \<Rightarrow> bytes option \<Rightarrow> bytes option \<Rightarrow> EncodedSignedTransaction" where
  "partial_stxn a b c =
     \<lparr> st_sig = None, st_txn = sample_payment_obj,
       st_msig = Some \<lparr> msig_v = 1, msig_thr = 2,
                        msig_subsig =
                          [\<lparr> ss_pk = replicate 32 1, ss_s = a \<rparr>,
                           \<lparr> ss_pk = replicate 32 2, ss_s = b \<rparr>,
                           \<lparr> ss_pk = replicate 32 3, ss_s = c \<rparr>] \<rparr>,
       st_lsig = None, st_sgnr = Some (replicate 32 9) \<rparr>"

definition table_decode :: "bytes \<Rightarrow> error + EncodedSignedTransaction" where
  "table_decode b =
     (if b = [1] then Inr (partial_stxn (Some [65]) None None)
      else if b = [2] then Inr (partial_stxn None (Some [66]) None)
      else if b = [3] then Inr (partial_stxn None None (Some [67]))
      else if b = [4] then Inr (partial_stxn (Some [97]) None None)
      else if b = [12] then Inr (partial_stxn (Some [65]) (Some [66]) None)
      else if b = [23] then Inr (partial_stxn None (Some [66]) (Some [67]))
      else if b = [123] then Inr (partial_stxn (Some [65]) (Some [66]) (Some [67]))
      else Inl MalformedBlob)"

definition table_encode :: "EncodedSignedTransaction \<Rightarrow> bytes" where
  "table_encode stx =
     (if stx = partial_stxn (Some [65]) (Some [66]) None then [12]
      else if stx = partial_stxn None (Some [66]) (Some [67]) then [23]
      else if stx = partial_stxn (Some [65]) (Some [66]) (Some [67]) then [123]
      else [])"

definition merge_stub_ext :: ext where
  "merge_stub_ext = stub_ext \<lparr> encode_stxn := table_encode, decode_stxn := table_decode \<rparr>"

section \<open>Vocabulary of the round trip\<close>








text \<open>
  A box reference that names the called application by its id is encoded with index 0
  (\<open>translateBoxReference\<close>, as the spec describes it), and index 0 is decoded as
  application 0.
\<close>

definition box_as_decoded :: "int \<Rightarrow> TransactionBoxReference \<Rightarrow> TransactionBoxReference" where
  "box_as_decoded calledAppId b = (if appIndex b = calledAppId then b \<lparr> appIndex := 0 \<rparr> else b)"

definition boxes_as_decoded :: "Transaction \<Rightarrow> Transaction" where
  "boxes_as_decoded t =
     t \<lparr> applicationCall :=
           map_option (\<lambda>a. a \<lparr> boxes := map (box_as_decoded (appId a)) (boxes a) \<rparr>)
             (applicationCall t) \<rparr>"




definition zero_round_keyreg :: TransactionParams where
  "zero_round_keyreg =
     no_payload_params
       \<lparr> tp_type := ''keyreg'',
         tp_keyregParams := Some (online_keyreg_params \<lparr> kp_voteFirst := Some 0 \<rparr>) \<rparr>"

section \<open>Basic facts\<close>

lemma bind_eq_Inr: "bind m f = Inr y \<longleftrightarrow> (\<exists>a. m = Inr a \<and> f a = Inr y)"
  by (cases m) auto

lemma when_present_eq_Inr:
  "when_present f v = Inr r \<longleftrightarrow>
     (v = None \<and> r = None) \<or> (\<exists>a b. v = Some a \<and> f a = Inr b \<and> r = Some b)"
  by (cases v) (auto simp: bind_eq_Inr)

text \<open>The fee block changes no field but \<open>fee\<close>.\<close>

lemma determine_fee_cases:
  assumes "determine_fee x sp t0 = Inr t"
  obtains f where "t = t0\<lparr>fee := f\<rparr>"
  using assms unfolding determine_fee_def
  by (auto simp: bind_eq_Inr Let_def split: if_splits)

text \<open>A construction that returns has passed every check, in the order of the source.\<close>

lemma Transaction_newE:
  assumes "Transaction_new x p = Inr t"
  obtains snd' lease' rekeyTo' fv lv gh pay kr ac ax af ap st where
    "isTransactionType (tp_type p)"
    "ensureAddress x (tp_sender p) = Inr snd'"
    "optionalFixedLengthByteArray (tp_lease p) ALGORAND_TRANSACTION_LEASE_LENGTH = Inr lease'"
    "optionalAddress x (tp_rekeyTo p) = Inr rekeyTo'"
    "ensureUint64 (sp_firstValid (tp_suggestedParams p)) = Inr fv"
    "ensureUint64 (sp_lastValid (tp_suggestedParams p)) = Inr lv"
    "\<exists>s. sp_genesisHash (tp_suggestedParams p) = Some s \<and> s \<noteq> [] \<and> gh = base64ToBytes x s"
    "length (fieldsPresent p) = 1"
    "tp_type p = fieldsPresent p ! 0"
    "when_present (payment_fields x) (tp_paymentParams p) = Inr pay"
    "when_present (keyreg_fields x) (tp_keyregParams p) = Inr kr"
    "when_present (assetConfig_fields x) (tp_assetConfigParams p) = Inr ac"
    "when_present (assetTransfer_fields x) (tp_assetTransferParams p) = Inr ax"
    "when_present (assetFreeze_fields x) (tp_assetFreezeParams p) = Inr af"
    "when_present (applicationCall_fields x) (tp_appCallParams p) = Inr ap"
    "when_present (stateProof_fields x) (tp_stateProofParams p) = Inr st"
    "determine_fee x (tp_suggestedParams p)
        \<lparr> txn_type = tp_type p, sender = snd', txn_note = nullish (tp_note p) [],
          lease = lease', rekeyTo = rekeyTo', group = [], fee = 0,
          firstValid = fv, lastValid = lv,
          genesisID = emit_str (sp_genesisID (tp_suggestedParams p)),
          genesisHash = gh, payment = pay, keyreg = kr, assetConfig = ac,
          assetTransfer = ax, assetFreeze = af, applicationCall = ap,
          stateProof = st \<rparr> = Inr t"
  using assms unfolding Transaction_new_def
  by (simp add: bind_eq_Inr split: if_splits option.splits) blast

lemma from_obj_for_encoding_Inr:
  "from_obj_for_encoding x e = Inr t \<longleftrightarrow>
     (\<exists>p t0. decoded_params x e = Inr p \<and> Transaction_new x p = Inr t0 \<and>
        (case e_grp e of None \<Rightarrow> t = t0
         | Some g \<Rightarrow> length g = ALGORAND_TRANSACTION_GROUP_LENGTH \<and> t = t0\<lparr>group := g\<rparr>))"
  unfolding from_obj_for_encoding_def
  by (cases "e_grp e") (auto simp: bind_eq_Inr)

lemma Transaction_new_group: "Transaction_new x p = Inr t \<Longrightarrow> group t = []"
  by (erule Transaction_newE, erule determine_fee_cases) simp

lemma sample_payment_constructed:
  "Transaction_new stub_ext sample_payment = Inr sample_payment_txn"
  by code_simp

section \<open>The group field\<close>

text \<open>
  C10. Immediately after the constructor returns, \<open>group\<close> is the empty byte string,
  whatever the parameters. \<^verbatim>\<open>from_obj_for_encoding\<close> leaves it empty when the decoded
  object has no \<^verbatim>\<open>grp\<close>, and otherwise attaches the decoded \<^verbatim>\<open>grp\<close>, which then has
  exactly 32 bytes (with any other length decoding throws).
\<close>

theorem group_empty_after_construction:
  "(Transaction_new x p = Inr t \<longrightarrow> group t = []) \<and>
   (from_obj_for_encoding x e = Inr t' \<longrightarrow>
      (case e_grp e of None \<Rightarrow> group t' = []
       | Some g \<Rightarrow> group t' = g \<and> length g = 32))"
proof (intro conjI impI)
  assume "Transaction_new x p = Inr t"
  then show "group t = []" by (rule Transaction_new_group)
next
  assume "from_obj_for_encoding x e = Inr t'"
  then show "case e_grp e of None \<Rightarrow> group t' = [] | Some g \<Rightarrow> group t' = g \<and> length g = 32"
    by (auto simp: from_obj_for_encoding_Inr ALGORAND_TRANSACTION_GROUP_LENGTH_def
          split: option.splits dest: Transaction_new_group)
qed

theorem group_empty_after_construction_witness:
  "Transaction_new stub_ext sample_payment = Inr sample_payment_txn \<and>
   group sample_payment_txn = [] \<and>
   from_obj_for_encoding stub_ext grouped_payment_obj = Inr grouped_payment_txn \<and>
   e_grp grouped_payment_obj = Some (replicate 32 7) \<and>
   group grouped_payment_txn = replicate 32 7 \<and>
   length (replicate 32 (7 :: 8 word)) = 32"
proof -
  have h1: "Transaction_new stub_ext sample_payment = Inr sample_payment_txn"
    by code_simp
  have h2: "from_obj_for_encoding stub_ext grouped_payment_obj = Inr grouped_payment_txn"
    by code_simp
  have h3: "e_grp grouped_payment_obj = Some (replicate 32 7)"
    by code_simp
  from group_empty_after_construction
         [of stub_ext sample_payment sample_payment_txn grouped_payment_obj grouped_payment_txn]
       h1 h2 h3
  show ?thesis by simp
qed

section \<open>Optional addresses\<close>

lemma ensureUint64_Inr: "ensureUint64 n = Inr v \<longleftrightarrow> 0 \<le> n \<and> n \<le> MAX_UINT_64 \<and> v = n"
  by (auto simp: ensureUint64_def)

lemma optionalAddress_nonzero:
  "optionalAddress x (Some a) = Inr r \<Longrightarrow> \<not> is_zero_address x a"
  by (cases a) (auto simp: optionalAddress_def is_zero_address_def bind_eq_Inr split: if_splits)

lemma payment_fields_close:
  "payment_fields x pp = Inr r \<Longrightarrow> \<exists>c. optionalAddress x (pp_closeRemainderTo pp) = Inr c"
  by (auto simp: payment_fields_def bind_eq_Inr)

lemma assetConfig_fields_addrs:
  "assetConfig_fields x cp = Inr r \<Longrightarrow>
     (\<exists>c. optionalAddress x (cp_manager cp) = Inr c) \<and>
     (\<exists>c. optionalAddress x (cp_reserve cp) = Inr c) \<and>
     (\<exists>c. optionalAddress x (cp_freeze cp) = Inr c) \<and>
     (\<exists>c. optionalAddress x (cp_clawback cp) = Inr c)"
  by (auto simp: assetConfig_fields_def bind_eq_Inr)

lemma assetTransfer_fields_addrs:
  "assetTransfer_fields x xp = Inr r \<Longrightarrow>
     (\<exists>c. optionalAddress x (xp_assetSender xp) = Inr c) \<and>
     (\<exists>c. optionalAddress x (xp_closeRemainderTo xp) = Inr c)"
  by (auto simp: assetTransfer_fields_def bind_eq_Inr)

lemma constructed_slots_accepted:
  assumes "Transaction_new x p = Inr t" "v \<in> set (optional_address_slots p)"
  shows "\<exists>c. optionalAddress x v = Inr c"
proof -
  from assms(1) obtain rk pay ac ax where
    rk: "optionalAddress x (tp_rekeyTo p) = Inr rk" and
    pay: "when_present (payment_fields x) (tp_paymentParams p) = Inr pay" and
    ac: "when_present (assetConfig_fields x) (tp_assetConfigParams p) = Inr ac" and
    ax: "when_present (assetTransfer_fields x) (tp_assetTransferParams p) = Inr ax"
    by (elim Transaction_newE)
  have P: "\<exists>c. optionalAddress x (pp_closeRemainderTo pp) = Inr c"
    if "tp_paymentParams p = Some pp" for pp
    using pay that by (auto simp: bind_eq_Inr dest: payment_fields_close)
  have A: "(\<exists>c. optionalAddress x (cp_manager cp) = Inr c) \<and>
     (\<exists>c. optionalAddress x (cp_reserve cp) = Inr c) \<and>
     (\<exists>c. optionalAddress x (cp_freeze cp) = Inr c) \<and>
     (\<exists>c. optionalAddress x (cp_clawback cp) = Inr c)"
    if "tp_assetConfigParams p = Some cp" for cp
    using ac that by (auto simp: bind_eq_Inr dest: assetConfig_fields_addrs)
  have X: "(\<exists>c. optionalAddress x (xp_assetSender xp) = Inr c) \<and>
     (\<exists>c. optionalAddress x (xp_closeRemainderTo xp) = Inr c)"
    if "tp_assetTransferParams p = Some xp" for xp
    using ax that by (auto simp: bind_eq_Inr dest: assetTransfer_fields_addrs)
  show ?thesis
  proof (cases "tp_paymentParams p")
    case None
    note pn = this
    show ?thesis
    proof (cases "tp_assetConfigParams p")
      case None
      note cn = this
      show ?thesis
      proof (cases "tp_assetTransferParams p")
        case None
        with pn cn assms(2) rk show ?thesis by (auto simp: optional_address_slots_def)
      next
        case (Some xp)
        with pn cn assms(2) rk X [OF Some] show ?thesis
          by (auto simp: optional_address_slots_def)
      qed
    next
      case (Some cp)
      note cs = this
      show ?thesis
      proof (cases "tp_assetTransferParams p")
        case None
        with pn cs assms(2) rk A [OF cs] show ?thesis by (auto simp: optional_address_slots_def)
      next
        case (Some xp)
        with pn cs assms(2) rk A [OF cs] X [OF Some] show ?thesis
          by (auto simp: optional_address_slots_def)
      qed
    qed
  next
    case (Some pp)
    note ps = this
    show ?thesis
    proof (cases "tp_assetConfigParams p")
      case None
      note cn = this
      show ?thesis
      proof (cases "tp_assetTransferParams p")
        case None
        with ps cn assms(2) rk P [OF ps] show ?thesis by (auto simp: optional_address_slots_def)
      next
        case (Some xp)
        with ps cn assms(2) rk P [OF ps] X [OF Some] show ?thesis
          by (auto simp: optional_address_slots_def)
      qed
    next
      case (Some cp)
      note cs = this
      show ?thesis
      proof (cases "tp_assetTransferParams p")
        case None
        with ps cs assms(2) rk P [OF ps] A [OF cs] show ?thesis
          by (auto simp: optional_address_slots_def)
      next
        case (Some xp)
        with ps cs assms(2) rk P [OF ps] A [OF cs] X [OF Some] show ?thesis
          by (auto simp: optional_address_slots_def)
      qed
    qed
  qed
qed

lemma constructed_slots_nonzero:
  assumes "Transaction_new x p = Inr t" "Some a \<in> set (optional_address_slots p)"
  shows "\<not> is_zero_address x a"
  using constructed_slots_accepted [OF assms] by (auto dest: optionalAddress_nonzero)

text \<open>
  C9. If any optional Address slot of the parameters holds the zero address, the
  constructor throws (to omit the value the slot must be absent).
\<close>

theorem zero_address_in_optional_slot_rejected:
  assumes "Some a \<in> set (optional_address_slots p)" and "is_zero_address x a"
  shows "\<exists>e. Transaction_new x p = Inl e"
proof (cases "Transaction_new x p")
  case (Inl e)
  then show ?thesis by blast
next
  case (Inr t)
  from constructed_slots_nonzero [OF Inr assms(1)] assms(2) show ?thesis by simp
qed

theorem zero_address_in_optional_slot_rejected_witness:
  "Some (AddrObj zero_address) \<in> set (optional_address_slots zero_rekey_payment) \<and>
   is_zero_address stub_ext (AddrObj zero_address) \<and>
   Transaction_new stub_ext zero_rekey_payment = Inl ZeroAddressMisuse"
proof -
  have h1: "Some (AddrObj zero_address) \<in> set (optional_address_slots zero_rekey_payment)"
    by (simp add: optional_address_slots_def zero_rekey_payment_def)
  have h2: "is_zero_address stub_ext (AddrObj zero_address)"
    by code_simp
  have h3: "Transaction_new stub_ext zero_rekey_payment = Inl ZeroAddressMisuse"
    by code_simp
  from zero_address_in_optional_slot_rejected [OF h1 h2] h1 h2 h3 show ?thesis by simp
qed

section \<open>Fixed-length byte fields\<close>

lemma optionalFixedLengthByteArray_Inr:
  "optionalFixedLengthByteArray v n = Inr r \<longleftrightarrow>
     (v = None \<and> r = None) \<or>
     (\<exists>b. v = Some b \<and> length b = n \<and> r = (if uint8ArrayIsEmpty b then None else Some b))"
  by (cases v) (auto simp: optionalFixedLengthByteArray_def)

lemma assetConfig_fields_hash:
  "assetConfig_fields x cp = Inr c \<Longrightarrow>
     optionalFixedLengthByteArray (cp_assetMetadataHash cp) ASSET_METADATA_HASH_LENGTH
       = Inr (assetMetadataHash c)"
  by (auto simp: assetConfig_fields_def bind_eq_Inr)

lemma Transaction_new_fields:
  assumes "Transaction_new x p = Inr t"
  obtains lease' gh ac t0 where
    "optionalFixedLengthByteArray (tp_lease p) ALGORAND_TRANSACTION_LEASE_LENGTH = Inr lease'"
    "\<exists>s. sp_genesisHash (tp_suggestedParams p) = Some s \<and> s \<noteq> [] \<and> gh = base64ToBytes x s"
    "when_present (assetConfig_fields x) (tp_assetConfigParams p) = Inr ac"
    "lease t0 = lease'" "genesisHash t0 = gh" "assetConfig t0 = ac"
    "determine_fee x (tp_suggestedParams p) t0 = Inr t"
proof -
  from assms show ?thesis
  proof (rule Transaction_newE)
    fix snd' lease' rekeyTo' fv lv gh pay kr ac ax af ap st
    assume l: "optionalFixedLengthByteArray (tp_lease p) ALGORAND_TRANSACTION_LEASE_LENGTH = Inr lease'"
      and g: "\<exists>s. sp_genesisHash (tp_suggestedParams p) = Some s \<and> s \<noteq> [] \<and> gh = base64ToBytes x s"
      and a: "when_present (assetConfig_fields x) (tp_assetConfigParams p) = Inr ac"
      and d: "determine_fee x (tp_suggestedParams p)
        \<lparr> txn_type = tp_type p, sender = snd', txn_note = nullish (tp_note p) [],
          lease = lease', rekeyTo = rekeyTo', group = [], fee = 0,
          firstValid = fv, lastValid = lv,
          genesisID = emit_str (sp_genesisID (tp_suggestedParams p)),
          genesisHash = gh, payment = pay, keyreg = kr, assetConfig = ac,
          assetTransfer = ax, assetFreeze = af, applicationCall = ap,
          stateProof = st \<rparr> = Inr t"
    show ?thesis
      by (rule that [OF l g a _ _ _ d]) simp_all
  qed
qed

text \<open>
  C6 (as amended). A constructed transaction has a lease, and an asset-config metadata
  hash, of exactly 32 bytes when present, and construction fails when either is supplied
  with another length; a decoded \<^verbatim>\<open>grp\<close> is attached only with exactly 32 bytes. The
  genesis hash is only required to be a non-empty string: the transaction holds its
  base64 decoding, of whatever length.
\<close>

theorem fixed_length_fields:
  "(Transaction_new x p = Inr t \<longrightarrow>
      (\<forall>l. tp_lease p = Some l \<longrightarrow> length l = 32) \<and>
      (\<forall>l. lease t = Some l \<longrightarrow> length l = 32) \<and>
      (\<forall>cp h. tp_assetConfigParams p = Some cp \<longrightarrow> cp_assetMetadataHash cp = Some h
          \<longrightarrow> length h = 32) \<and>
      (\<forall>c h. assetConfig t = Some c \<longrightarrow> assetMetadataHash c = Some h \<longrightarrow> length h = 32) \<and>
      (\<exists>s. sp_genesisHash (tp_suggestedParams p) = Some s \<and> s \<noteq> [] \<and>
           genesisHash t = base64ToBytes x s)) \<and>
   (from_obj_for_encoding x e = Inr t' \<longrightarrow>
      (\<forall>g. e_grp e = Some g \<longrightarrow> length g = 32 \<and> group t' = g))"
proof (intro conjI impI)
  assume c: "Transaction_new x p = Inr t"
  then obtain lease' gh ac t0 where
    l: "optionalFixedLengthByteArray (tp_lease p) ALGORAND_TRANSACTION_LEASE_LENGTH = Inr lease'" and
    g: "\<exists>s. sp_genesisHash (tp_suggestedParams p) = Some s \<and> s \<noteq> [] \<and> gh = base64ToBytes x s" and
    a: "when_present (assetConfig_fields x) (tp_assetConfigParams p) = Inr ac" and
    t0: "lease t0 = lease'" "genesisHash t0 = gh" "assetConfig t0 = ac" and
    d: "determine_fee x (tp_suggestedParams p) t0 = Inr t"
    by (rule Transaction_new_fields)
  from d have eqs: "lease t = lease t0" "genesisHash t = genesisHash t0" "assetConfig t = assetConfig t0"
    by (auto elim!: determine_fee_cases)
  from l show "\<forall>l. tp_lease p = Some l \<longrightarrow> length l = 32"
    by (auto simp: optionalFixedLengthByteArray_Inr ALGORAND_TRANSACTION_LEASE_LENGTH_def)
  from l eqs t0 show "\<forall>l. lease t = Some l \<longrightarrow> length l = 32"
    by (auto simp: optionalFixedLengthByteArray_Inr ALGORAND_TRANSACTION_LEASE_LENGTH_def
             split: if_splits)
  from a show "\<forall>cp h. tp_assetConfigParams p = Some cp \<longrightarrow> cp_assetMetadataHash cp = Some h
          \<longrightarrow> length h = 32"
    by (auto simp: bind_eq_Inr optionalFixedLengthByteArray_Inr ASSET_METADATA_HASH_LENGTH_def
             dest!: assetConfig_fields_hash)
  from a eqs t0 show "\<forall>c h. assetConfig t = Some c \<longrightarrow> assetMetadataHash c = Some h \<longrightarrow> length h = 32"
    by (auto simp: when_present_eq_Inr optionalFixedLengthByteArray_Inr
                   ASSET_METADATA_HASH_LENGTH_def
             dest!: assetConfig_fields_hash split: if_splits)
  from g eqs t0 show "\<exists>s. sp_genesisHash (tp_suggestedParams p) = Some s \<and> s \<noteq> [] \<and>
           genesisHash t = base64ToBytes x s"
    by simp
next
  assume "from_obj_for_encoding x e = Inr t'"
  then show "\<forall>g. e_grp e = Some g \<longrightarrow> length g = 32 \<and> group t' = g"
    by (auto simp: from_obj_for_encoding_Inr ALGORAND_TRANSACTION_GROUP_LENGTH_def)
qed

theorem fixed_length_fields_witness:
  "Transaction_new stub_ext sample_payment = Inr sample_payment_txn \<and>
   lease sample_payment_txn = None \<and>
   genesisHash sample_payment_txn = base64ToBytes stub_ext ''gggggggggggggggggggggggggggggggg'' \<and>
   from_obj_for_encoding stub_ext grouped_payment_obj = Inr grouped_payment_txn \<and>
   e_grp grouped_payment_obj = Some (replicate 32 7) \<and>
   group grouped_payment_txn = replicate 32 7"
proof -
  have h1: "Transaction_new stub_ext sample_payment = Inr sample_payment_txn" by code_simp
  have h2: "from_obj_for_encoding stub_ext grouped_payment_obj = Inr grouped_payment_txn"
    by code_simp
  have h3: "e_grp grouped_payment_obj = Some (replicate 32 7)" by code_simp
  have h4: "lease sample_payment_txn = None" by code_simp
  have h5: "sp_genesisHash (tp_suggestedParams sample_payment)
              = Some ''gggggggggggggggggggggggggggggggg''" by code_simp
  from fixed_length_fields
         [of stub_ext sample_payment sample_payment_txn grouped_payment_obj grouped_payment_txn]
       h1 h2 h3 h4 h5
  show ?thesis by simp
qed

text \<open>
  The claim as stated fails: the constructor accepts a genesis hash of 3 bytes.
\<close>

theorem genesis_hash_length_unchecked:
  "Transaction_new stub_ext short_hash_payment = Inr short_hash_txn \<and>
   length (genesisHash short_hash_txn) = 3"
  by code_simp

section \<open>The fee\<close>

lemma determine_fee_flat:
  "nullish (sp_flatFee sp) False \<Longrightarrow>
   determine_fee x sp t0 = bind (ensureUint64 (sp_fee sp)) (\<lambda>f. Inr (t0\<lparr>fee := f\<rparr>))"
  by (simp add: determine_fee_def Let_def)

lemma determine_fee_sized:
  "\<not> nullish (sp_flatFee sp) False \<Longrightarrow>
   determine_fee x sp t0 =
     bind (ensureUint64 (sp_fee sp)) (\<lambda>fee0.
     bind (ensureUint64 (sp_minFee sp)) (\<lambda>minFee.
     bind (estimateSize x (t0\<lparr>fee := fee0\<rparr>)) (\<lambda>size.
     Inr (t0\<lparr>fee := (if fee0 * int size < minFee then minFee else fee0 * int size)\<rparr>))))"
  unfolding determine_fee_def Let_def
  by (simp split del: if_split cong: if_cong)

lemma estimateSize_Inr:
  "estimateSize x t = Inr n \<longleftrightarrow>
     (\<exists>obj. get_obj_for_encoding t = Inr obj \<and> n = length (msgpack_encode x obj) + 75)"
  by (auto simp: estimateSize_def toByte_def bind_eq_Inr NUM_ADDL_BYTES_AFTER_SIGNING_def)

lemma determine_fee_flat_Inr:
  assumes "nullish (sp_flatFee sp) False"
  shows "determine_fee x sp t0 = Inr t \<longleftrightarrow>
     0 \<le> sp_fee sp \<and> sp_fee sp \<le> MAX_UINT_64 \<and> t = t0\<lparr>fee := sp_fee sp\<rparr>"
  by (auto simp: determine_fee_flat [OF assms] bind_eq_Inr ensureUint64_Inr)

lemma determine_fee_sized_Inr:
  assumes "\<not> nullish (sp_flatFee sp) False"
  shows "determine_fee x sp t0 = Inr t \<longleftrightarrow>
     0 \<le> sp_fee sp \<and> sp_fee sp \<le> MAX_UINT_64 \<and>
     0 \<le> sp_minFee sp \<and> sp_minFee sp \<le> MAX_UINT_64 \<and>
     (\<exists>obj. get_obj_for_encoding (t0\<lparr>fee := sp_fee sp\<rparr>) = Inr obj \<and>
        t = t0\<lparr>fee := (if sp_fee sp * (int (length (msgpack_encode x obj)) + 75) < sp_minFee sp
                        then sp_minFee sp
                        else sp_fee sp * (int (length (msgpack_encode x obj)) + 75))\<rparr>)"
  unfolding determine_fee_sized [OF assms]
  by (auto simp: bind_eq_Inr ensureUint64_Inr estimateSize_Inr split del: if_split cong: if_cong)

text \<open>
  C4. With \<^verbatim>\<open>flatFee\<close> true the fee of the constructed transaction is the suggested fee
  verbatim. Otherwise it is the suggested fee times the estimated size, where the
  estimated size is the byte length of the canonical encoding of the transaction (as it
  stands when the fee block runs: every field final, \<open>fee\<close> holding the suggested fee)
  plus 75, and it is exactly \<^verbatim>\<open>minFee\<close> when that product is below \<^verbatim>\<open>minFee\<close>.
\<close>

theorem fee_resolution:
  assumes "Transaction_new x p = Inr t"
  shows "if sp_flatFee (tp_suggestedParams p) = Some True
         then fee t = sp_fee (tp_suggestedParams p)
         else (\<exists>obj. get_obj_for_encoding (t\<lparr>fee := sp_fee (tp_suggestedParams p)\<rparr>) = Inr obj \<and>
                 fee t = (let estimatedSize = (int (length (msgpack_encode x obj)) + 75);
                              f = sp_fee (tp_suggestedParams p) * estimatedSize
                          in if f < sp_minFee (tp_suggestedParams p)
                             then sp_minFee (tp_suggestedParams p) else f))"
proof -
  from assms obtain t0 where
    d: "determine_fee x (tp_suggestedParams p) t0 = Inr t"
    by (elim Transaction_newE)
  show ?thesis
  proof (cases "sp_flatFee (tp_suggestedParams p) = Some True")
    case True
    then have "nullish (sp_flatFee (tp_suggestedParams p)) False" by (simp add: nullish_def)
    from d [unfolded determine_fee_flat_Inr [OF this]] True show ?thesis by simp
  next
    case False
    then have nf: "\<not> nullish (sp_flatFee (tp_suggestedParams p)) False"
      by (cases "sp_flatFee (tp_suggestedParams p)") (auto simp: nullish_def)
    from d [unfolded determine_fee_sized_Inr [OF nf]] obtain obj where
      o: "get_obj_for_encoding (t0\<lparr>fee := sp_fee (tp_suggestedParams p)\<rparr>) = Inr obj" and
      t: "t = t0\<lparr>fee := (if sp_fee (tp_suggestedParams p) * (int (length (msgpack_encode x obj)) + 75)
                             < sp_minFee (tp_suggestedParams p)
                        then sp_minFee (tp_suggestedParams p)
                        else sp_fee (tp_suggestedParams p) * (int (length (msgpack_encode x obj)) + 75))\<rparr>"
      by blast
    have "t\<lparr>fee := sp_fee (tp_suggestedParams p)\<rparr> = t0\<lparr>fee := sp_fee (tp_suggestedParams p)\<rparr>"
      by (subst t) (simp split del: if_split)
    moreover have "fee t = (if sp_fee (tp_suggestedParams p) * (int (length (msgpack_encode x obj)) + 75)
                             < sp_minFee (tp_suggestedParams p)
                        then sp_minFee (tp_suggestedParams p)
                        else sp_fee (tp_suggestedParams p) * (int (length (msgpack_encode x obj)) + 75))"
      by (subst t) (simp split del: if_split)
    ultimately show ?thesis using False o by (simp add: Let_def split del: if_split)
  qed
qed

theorem fee_resolution_witness:
  "Transaction_new stub_ext sample_payment = Inr sample_payment_txn \<and>
   sp_flatFee (tp_suggestedParams sample_payment) \<noteq> Some True \<and>
   fee sample_payment_txn = 10 * (32 + 75)"
proof -
  have h1: "Transaction_new stub_ext sample_payment = Inr sample_payment_txn" by code_simp
  have h2: "sp_flatFee (tp_suggestedParams sample_payment) \<noteq> Some True" by code_simp
  have h3: "fee sample_payment_txn = 10 * (32 + 75)" by code_simp
  from fee_resolution [OF h1] h1 h2 h3 show ?thesis by simp
qed

section \<open>Key registration\<close>

lemma getKeyregKey_Inr:
  "getKeyregKey x k n = Inr r \<longleftrightarrow>
     key_length_ok x k n \<and>
     r = map_option (\<lambda>i. case i of KeyStr s \<Rightarrow> base64ToBytes x s | KeyBytes b \<Rightarrow> b) k"
  by (auto simp: getKeyregKey_def key_length_ok_def Let_def split: option.splits key_in.splits)

lemma optionalUint64_Inr: "optionalUint64 v = Inr r \<longleftrightarrow> uint64_ok v \<and> r = v"
  by (cases v) (auto simp: optionalUint64_def uint64_ok_def bind_eq_Inr ensureUint64_Inr)

lemma keyreg_fields_accepts_iff:
  "(\<exists>k. keyreg_fields x kp = Inr k) \<longleftrightarrow>
     keyreg_values_ok x kp \<and>
     (keyreg_offline kp \<or> keyreg_online kp \<or> keyreg_nonparticipating kp)"
  unfolding keyreg_fields_def Let_def
  by (simp add: bind_eq_Inr getKeyregKey_Inr optionalUint64_Inr keyreg_values_ok_def
        keyreg_offline_def keyreg_online_def keyreg_nonparticipating_def
        keyreg_no_participation_fields_def
        KEYREG_VOTE_KEY_LENGTH_def KEYREG_SELECTION_KEY_LENGTH_def KEYREG_STATE_PROOF_KEY_LENGTH_def)

lemma Transaction_newI:
  assumes
    "isTransactionType (tp_type p)"
    "ensureAddress x (tp_sender p) = Inr snd'"
    "optionalFixedLengthByteArray (tp_lease p) ALGORAND_TRANSACTION_LEASE_LENGTH = Inr lease'"
    "optionalAddress x (tp_rekeyTo p) = Inr rekeyTo'"
    "ensureUint64 (sp_firstValid (tp_suggestedParams p)) = Inr fv"
    "ensureUint64 (sp_lastValid (tp_suggestedParams p)) = Inr lv"
    "\<exists>s. sp_genesisHash (tp_suggestedParams p) = Some s \<and> s \<noteq> [] \<and> gh = base64ToBytes x s"
    "length (fieldsPresent p) = 1"
    "tp_type p = fieldsPresent p ! 0"
    "when_present (payment_fields x) (tp_paymentParams p) = Inr pay"
    "when_present (keyreg_fields x) (tp_keyregParams p) = Inr kr"
    "when_present (assetConfig_fields x) (tp_assetConfigParams p) = Inr ac"
    "when_present (assetTransfer_fields x) (tp_assetTransferParams p) = Inr ax"
    "when_present (assetFreeze_fields x) (tp_assetFreezeParams p) = Inr af"
    "when_present (applicationCall_fields x) (tp_appCallParams p) = Inr ap"
    "when_present (stateProof_fields x) (tp_stateProofParams p) = Inr st"
    "determine_fee x (tp_suggestedParams p)
        \<lparr> txn_type = tp_type p, sender = snd', txn_note = nullish (tp_note p) [],
          lease = lease', rekeyTo = rekeyTo', group = [], fee = 0,
          firstValid = fv, lastValid = lv,
          genesisID = emit_str (sp_genesisID (tp_suggestedParams p)),
          genesisHash = gh, payment = pay, keyreg = kr, assetConfig = ac,
          assetTransfer = ax, assetFreeze = af, applicationCall = ap,
          stateProof = st \<rparr> = Inr t"
  shows "Transaction_new x p = Inr t"
  using assms unfolding Transaction_new_def by auto

lemma determine_fee_transfer:
  assumes "determine_fee x sp t0 = Inr t"
    and "get_obj_for_encoding (t1\<lparr>fee := sp_fee sp\<rparr>) = Inr obj"
  shows "\<exists>t'. determine_fee x sp t1 = Inr t'"
proof (cases "nullish (sp_flatFee sp) False")
  case True
  with assms(1) show ?thesis by (simp add: determine_fee_flat_Inr)
next
  case False
  with assms show ?thesis by (simp add: determine_fee_sized_Inr)
qed

lemma keyreg_only_payload:
  assumes "length (fieldsPresent p) = 1" "tp_keyregParams p = Some kp"
  shows "tp_paymentParams p = None \<and> tp_assetConfigParams p = None \<and>
         tp_assetTransferParams p = None \<and> tp_assetFreezeParams p = None \<and>
         tp_appCallParams p = None \<and> tp_stateProofParams p = None \<and>
         fieldsPresent p = [''keyreg'']"
  using assms by (auto simp: fieldsPresent_def split: if_splits)

text \<open>
  C3. Take any parameter record the constructor accepts with key-registration parameters
  (so that everything but them is in order). With key-registration parameters \<open>kp'\<close> in
  their place, the constructor succeeds exactly when the values of \<open>kp'\<close> are well-formed
  and \<open>kp'\<close> has one of the three shapes: offline, online (\<^verbatim>\<open>stateProofKey\<close> optional),
  non-participation. Every other combination is rejected.
\<close>

theorem keyreg_tri_state:
  assumes "Transaction_new x p = Inr t" and "tp_keyregParams p = Some kp"
  shows "(\<exists>t'. Transaction_new x (p\<lparr>tp_keyregParams := Some kp'\<rparr>) = Inr t') \<longleftrightarrow>
           keyreg_values_ok x kp' \<and>
           (keyreg_offline kp' \<or> keyreg_online kp' \<or> keyreg_nonparticipating kp')"
proof
  assume "\<exists>t'. Transaction_new x (p\<lparr>tp_keyregParams := Some kp'\<rparr>) = Inr t'"
  then obtain t' where "Transaction_new x (p\<lparr>tp_keyregParams := Some kp'\<rparr>) = Inr t'" ..
  then obtain kr where "when_present (keyreg_fields x) (Some kp') = Inr kr"
    by (elim Transaction_newE) simp
  then have "\<exists>k. keyreg_fields x kp' = Inr k" by (auto simp: bind_eq_Inr)
  then show "keyreg_values_ok x kp' \<and>
           (keyreg_offline kp' \<or> keyreg_online kp' \<or> keyreg_nonparticipating kp')"
    by (simp only: keyreg_fields_accepts_iff)
next
  assume "keyreg_values_ok x kp' \<and>
           (keyreg_offline kp' \<or> keyreg_online kp' \<or> keyreg_nonparticipating kp')"
  then obtain k' where k': "keyreg_fields x kp' = Inr k'"
    by (simp only: keyreg_fields_accepts_iff [symmetric]) blast
  let ?p = "p\<lparr>tp_keyregParams := Some kp'\<rparr>"
  from assms(1) show "\<exists>t'. Transaction_new x ?p = Inr t'"
  proof (rule Transaction_newE)
    fix snd' lease' rekeyTo' fv lv gh pay kr ac ax af ap st
    assume a: "isTransactionType (tp_type p)"
      "ensureAddress x (tp_sender p) = Inr snd'"
      "optionalFixedLengthByteArray (tp_lease p) ALGORAND_TRANSACTION_LEASE_LENGTH = Inr lease'"
      "optionalAddress x (tp_rekeyTo p) = Inr rekeyTo'"
      "ensureUint64 (sp_firstValid (tp_suggestedParams p)) = Inr fv"
      "ensureUint64 (sp_lastValid (tp_suggestedParams p)) = Inr lv"
      "\<exists>s. sp_genesisHash (tp_suggestedParams p) = Some s \<and> s \<noteq> [] \<and> gh = base64ToBytes x s"
      and fp: "length (fieldsPresent p) = 1" "tp_type p = fieldsPresent p ! 0"
      and d: "determine_fee x (tp_suggestedParams p)
        \<lparr> txn_type = tp_type p, sender = snd', txn_note = nullish (tp_note p) [],
          lease = lease', rekeyTo = rekeyTo', group = [], fee = 0,
          firstValid = fv, lastValid = lv,
          genesisID = emit_str (sp_genesisID (tp_suggestedParams p)),
          genesisHash = gh, payment = pay, keyreg = kr, assetConfig = ac,
          assetTransfer = ax, assetFreeze = af, applicationCall = ap,
          stateProof = st \<rparr> = Inr t"
    note only = keyreg_only_payload [OF fp(1) assms(2)]
    let ?t1 = "\<lparr> txn_type = tp_type p, sender = snd', txn_note = nullish (tp_note p) [],
          lease = lease', rekeyTo = rekeyTo', group = [], fee = 0,
          firstValid = fv, lastValid = lv,
          genesisID = emit_str (sp_genesisID (tp_suggestedParams p)),
          genesisHash = gh, payment = None, keyreg = Some k', assetConfig = None,
          assetTransfer = None, assetFreeze = None, applicationCall = None,
          stateProof = None \<rparr>"
    have "\<exists>obj. get_obj_for_encoding (?t1\<lparr>fee := sp_fee (tp_suggestedParams p)\<rparr>) = Inr obj"
      by (simp add: get_obj_for_encoding_def)
    with d obtain t' where t': "determine_fee x (tp_suggestedParams p) ?t1 = Inr t'"
      by (blast dest: determine_fee_transfer)
    have fp': "fieldsPresent ?p = [''keyreg'']"
      using only by (simp add: fieldsPresent_def)
    have "Transaction_new x ?p = Inr t'"
      by (rule Transaction_newI [where snd' = snd' and lease' = lease' and rekeyTo' = rekeyTo'
              and fv = fv and lv = lv and gh = gh and pay = None and kr = "Some k'"
              and ac = None and ax = None and af = None and ap = None and st = None])
         (use a fp only fp' k' t' in simp_all)
    then show ?thesis ..
  qed
qed

theorem keyreg_tri_state_witness:
  "Transaction_new stub_ext sample_keyreg = Inr sample_keyreg_txn \<and>
   tp_keyregParams sample_keyreg = Some offline_keyreg_params \<and>
   keyreg_values_ok stub_ext online_keyreg_params \<and> keyreg_online online_keyreg_params \<and>
   (\<exists>t'. Transaction_new stub_ext (sample_keyreg\<lparr>tp_keyregParams := Some online_keyreg_params\<rparr>)
           = Inr t') \<and>
   Transaction_new stub_ext (sample_keyreg\<lparr>tp_keyregParams := Some mixed_keyreg_params\<rparr>)
     = Inl NonParticipationWithParams \<and>
   \<not> (keyreg_offline mixed_keyreg_params \<or> keyreg_online mixed_keyreg_params \<or>
      keyreg_nonparticipating mixed_keyreg_params)"
proof -
  have h1: "Transaction_new stub_ext sample_keyreg = Inr sample_keyreg_txn" by code_simp
  have h2: "tp_keyregParams sample_keyreg = Some offline_keyreg_params" by code_simp
  have h3: "keyreg_values_ok stub_ext online_keyreg_params" by code_simp
  have h4: "keyreg_online online_keyreg_params" by code_simp
  have h5: "Transaction_new stub_ext (sample_keyreg\<lparr>tp_keyregParams := Some mixed_keyreg_params\<rparr>)
     = Inl NonParticipationWithParams" by code_simp
  have h6: "\<not> (keyreg_offline mixed_keyreg_params \<or> keyreg_online mixed_keyreg_params \<or>
      keyreg_nonparticipating mixed_keyreg_params)" by code_simp
  from keyreg_tri_state [OF h1 h2, of online_keyreg_params] h3 h4
  have "\<exists>t'. Transaction_new stub_ext (sample_keyreg\<lparr>tp_keyregParams := Some online_keyreg_params\<rparr>)
           = Inr t'" by simp
  with h1 h2 h3 h4 h5 h6 show ?thesis by simp
qed

section \<open>Well-formedness of constructed transactions\<close>





lemma map_err_Inr_all:
  "map_err f xs = Inr ys \<Longrightarrow> list_all2 (\<lambda>a b. f a = Inr b) xs ys"
  by (induction xs arbitrary: ys) (auto simp: bind_eq_Inr)















section \<open>Default elision\<close>





lemma emit_if_elide [simp]:
  "emit_if (a \<noteq> d) a = elide d a"
  "emit_if (length xs \<noteq> 0) xs = elide [] xs"
  "emit_if b b = elide False b"
  by (auto simp: emit_if_def elide_def)

lemma emit_if_elide_address [simp]:
  "emit_if (\<not> uint8ArrayIsEmpty (publicKey a)) (publicKey a) = elide_address a"
  by (simp add: emit_if_def elide_address_def)

lemma emit_opt_id [simp]: "emit_opt v (\<lambda>l. l) = v"
  by (cases v) (simp_all add: emit_opt_def)

lemma emit_opt_map [simp]: "emit_opt v f = map_option f v"
  by (cases v) (simp_all add: emit_opt_def)

lemma emit_int_elide [simp]: "emit_int v = elide_opt 0 v"
  by (cases v) (simp_all add: emit_int_def elide_opt_def)

lemma emit_str_elide [simp]: "emit_str v = elide_opt [] v"
  by (cases v) (simp_all add: emit_str_def elide_opt_def)





















section \<open>Multisig verification\<close>








section \<open>Multisig merge\<close>

text \<open>When the decoding of a blob and the comparisons with the reference succeed.\<close>

lemma merge_ref_eq_iff:
  "(\<lparr> refTxID = a, refAuthAddr = b, refSubsigLength = c, refMsigAddr = d \<rparr> = ref) \<longleftrightarrow>
     a = refTxID ref \<and> b = refAuthAddr ref \<and> c = refSubsigLength ref \<and> d = refMsigAddr ref"
  by (cases ref) auto

lemma blob_ref_Inr:
  "blob_ref x blob = Inr (ref, stx, m) \<longleftrightarrow>
     decode_stxn x blob = Inr stx \<and> st_msig stx = Some m \<and>
     (\<exists>txn. from_obj_for_encoding x (st_txn stx) = Inr txn \<and> txID x txn = Inr (refTxID ref)) \<and>
     refAuthAddr ref = map_option (encodeAddress x) (st_sgnr stx) \<and>
     refSubsigLength ref = length (msig_subsig m) \<and>
     multisig_address x m = Inr (refMsigAddr ref)"
  unfolding blob_ref_def
  by (auto simp: bind_eq_Inr merge_ref_eq_iff split: option.splits)

lemma merge_loop_Cons_Inr:
  "merge_loop x ref i (blob # rest) cur = Inr r \<longleftrightarrow>
     (\<exists>stx m merged. blob_ref x blob = Inr (ref, stx, m) \<and>
        merge_subsigs (msig_subsig m) cur = Inr merged \<and>
        merge_loop x ref (i + 1) rest merged = Inr r)"
  by (auto simp: bind_eq_Inr blob_ref_Inr split: option.splits if_splits)

lemma merge_loop_index:
  "merge_loop x ref i bs cur = Inr r \<longleftrightarrow> merge_loop x ref j bs cur = Inr r"
proof (induction bs arbitrary: i j cur)
  case Nil
  show ?case by simp
next
  case (Cons b bs)
  show ?case
    unfolding merge_loop_Cons_Inr using Cons.IH [of "i + 1" _ "j + 1"] by simp
qed

lemma merged_signed_txn_alt:
  "merged_signed_txn x bs =
     (if length bs < 2 then Inl MergeLessThanTwo else
      bind (blob_ref x (bs ! 0)) (\<lambda>(ref, stx, m).
      bind (merge_loop x ref 1 (tl bs) (msig_subsig m)) (\<lambda>newSubsigs.
      bind (merged_sgnr x ref) (\<lambda>sgnr.
      Inr \<lparr> st_sig = None, st_txn = st_txn stx,
            st_msig = Some \<lparr> msig_v = msig_v m, msig_thr = msig_thr m,
                             msig_subsig = newSubsigs \<rparr>,
            st_lsig = None, st_sgnr = sgnr \<rparr>))))"
proof (cases "decode_stxn x (bs ! 0)")
  case (Inl e)
  then show ?thesis by (simp add: merged_signed_txn_def blob_ref_def)
next
  case (Inr stx)
  note d = this
  show ?thesis
  proof (cases "st_msig stx")
    case None
    with d show ?thesis by (simp add: merged_signed_txn_def blob_ref_def)
  next
    case (Some m)
    note m = this
    show ?thesis
    proof (cases "from_obj_for_encoding x (st_txn stx)")
      case (Inl e)
      with d m show ?thesis by (simp add: merged_signed_txn_def blob_ref_def)
    next
      case (Inr txn)
      note t = this
      show ?thesis
      proof (cases "txID x txn")
        case (Inl e)
        with d m t show ?thesis by (simp add: merged_signed_txn_def blob_ref_def)
      next
        case (Inr tid)
        note i = this
        show ?thesis
        proof (cases "multisig_address x m")
          case (Inl e)
          with d m t i show ?thesis by (simp add: merged_signed_txn_def blob_ref_def)
        next
          case (Inr addr)
          with d m t i show ?thesis
            by (simp add: merged_signed_txn_def blob_ref_def merged_sgnr_def)
        qed
      qed
    qed
  qed
qed

lemma merged_signed_txn_Inr:
  "merged_signed_txn x bs = Inr r \<longleftrightarrow>
     2 \<le> length bs \<and>
     (\<exists>ref stx m newSubsigs sgnr.
        blob_ref x (bs ! 0) = Inr (ref, stx, m) \<and>
        merge_loop x ref 1 (tl bs) (msig_subsig m) = Inr newSubsigs \<and>
        merged_sgnr x ref = Inr sgnr \<and>
        r = \<lparr> st_sig = None, st_txn = st_txn stx,
              st_msig = Some \<lparr> msig_v = msig_v m, msig_thr = msig_thr m,
                               msig_subsig = newSubsigs \<rparr>,
              st_lsig = None, st_sgnr = sgnr \<rparr>)"
proof (cases "length bs < 2")
  case True
  then show ?thesis by (simp add: merged_signed_txn_alt)
next
  case False
  show ?thesis
  proof (cases "blob_ref x (bs ! 0)")
    case (Inl e)
    with False show ?thesis by (simp add: merged_signed_txn_alt)
  next
    case (Inr v)
    obtain ref stx m where v: "v = (ref, stx, m)" by (cases v)
    from False Inr v show ?thesis
      by (simp add: merged_signed_txn_alt bind_eq_Inr eq_commute [of r])
  qed
qed

text \<open>Signature lists: coverage and the entries of a merged list.\<close>

lemma slot_signatures_eq:
  "slot_signatures l = {(k, s). k < length l \<and> ss_s (l ! k) = Some s}"
proof (rule set_eqI)
  fix p :: "nat \<times> bytes"
  obtain k s where p: "p = (k, s)" by (cases p)
  have "p \<in> slot_signatures l \<longleftrightarrow>
          (\<exists>j<length l. \<exists>y. ss_s (l ! j) = Some y \<and> (k, s) = (j, y))"
    unfolding p by (auto simp: slot_signatures_def List.map_filter_def image_iff)
  then show "p \<in> slot_signatures l \<longleftrightarrow> p \<in> {(k, s). k < length l \<and> ss_s (l ! k) = Some s}"
    unfolding p by auto
qed

lemma covers_length: "covers r l \<Longrightarrow> length l = length r"
  by (simp add: covers_def list_all2_lengthD)

lemma covers_refl: "covers l l"
  by (simp add: covers_def list_all2_refl)

lemma covers_trans: "covers c b \<Longrightarrow> covers b a \<Longrightarrow> covers c a"
  unfolding covers_def
  by (erule list_all2_trans [rotated 2]) auto

lemma covers_Nil [simp]: "covers [] []"
  by (simp add: covers_def)

lemma covers_Cons [simp]:
  "covers (b # r) (a # l) \<longleftrightarrow> (ss_s a = None \<or> ss_s a = ss_s b) \<and> covers r l"
  by (simp add: covers_def)

lemma covers_nth:
  "covers r l \<Longrightarrow> k < length l \<Longrightarrow> ss_s (l ! k) = Some s \<Longrightarrow> ss_s (r ! k) = Some s"
  unfolding covers_def by (auto dest: list_all2_nthD)

lemma covers_signatures:
  assumes "covers r l"
  shows "slot_signatures l \<subseteq> slot_signatures r"
proof
  fix p assume "p \<in> slot_signatures l"
  then obtain k s where p: "p = (k, s)" "k < length l" "ss_s (l ! k) = Some s"
    by (auto simp: slot_signatures_eq)
  from covers_nth [OF assms p(2,3)] covers_length [OF assms] p
  show "p \<in> slot_signatures r" by (simp add: slot_signatures_eq)
qed

lemma slot_signatures_Nil [simp]: "slot_signatures [] = {}"
  by (simp add: slot_signatures_eq)

lemma slot_signatures_Cons:
  "slot_signatures (a # l) =
     (case ss_s a of None \<Rightarrow> {} | Some s \<Rightarrow> {(0, s)}) \<union>
     (\<lambda>(k, s). (Suc k, s)) ` slot_signatures l"
proof (rule set_eqI)
  fix p :: "nat \<times> bytes"
  obtain k s where p: "p = (k, s)" by (cases p)
  show "p \<in> slot_signatures (a # l) \<longleftrightarrow>
        p \<in> (case ss_s a of None \<Rightarrow> {} | Some s \<Rightarrow> {(0, s)}) \<union>
            (\<lambda>(k, s). (Suc k, s)) ` slot_signatures l"
    unfolding p
    by (cases k) (auto simp: slot_signatures_eq image_iff split: option.splits)
qed

lemma merge_subsigs_Inr:
  "length us = length cs \<Longrightarrow> merge_subsigs us cs = Inr r \<Longrightarrow>
     length r = length cs \<and> map ss_pk r = map ss_pk cs \<and> covers r us \<and> covers r cs \<and>
     slot_signatures r = slot_signatures us \<union> slot_signatures cs"
proof (induction us cs arbitrary: r rule: list_induct2)
  case Nil
  then show ?case by simp
next
  case (Cons u us c cs)
  show ?case
  proof (cases "ss_s u")
    case None
    with Cons.prems obtain r' where r': "merge_subsigs us cs = Inr r'" "r = c # r'"
      by (auto simp: bind_eq_Inr)
    from Cons.IH [OF r'(1)] None r'(2) show ?thesis
      by (auto simp: slot_signatures_Cons)
  next
    case (Some s)
    with Cons.prems obtain r' where r': "merge_subsigs us cs = Inr r'"
      "r = c\<lparr>ss_s := Some s\<rparr> # r'" and ok: "ss_s c = None \<or> ss_s c = Some s"
      by (auto simp: bind_eq_Inr arrayEqual_def split: if_splits option.splits)
    from Cons.IH [OF r'(1)] Some r'(2) ok show ?thesis
      by (auto simp: slot_signatures_Cons)
  qed
qed


text \<open>
  The loop returns exactly when every blob is accepted; its result has the signatures of
  the start list and of every blob.
\<close>

lemma blob_ref_signatures:
  "blob_ref x b = Inr (ref, stx, m) \<Longrightarrow> blob_signatures x b = slot_signatures (msig_subsig m)"
  by (simp add: blob_ref_Inr blob_signatures_def stxn_signatures_def)

lemma accepted_mono: "accepted x ref U b \<Longrightarrow> covers V U \<Longrightarrow> accepted x ref V b"
  unfolding accepted_def by (blast intro: covers_trans)

lemma merge_loop_Inr:
  "merge_loop x ref i bs cur = Inr r \<Longrightarrow> length cur = refSubsigLength ref \<Longrightarrow>
     length r = length cur \<and> map ss_pk r = map ss_pk cur \<and> covers r cur \<and>
     (\<forall>b\<in>set bs. accepted x ref r b) \<and>
     slot_signatures r = slot_signatures cur \<union> (\<Union>b\<in>set bs. blob_signatures x b)"
proof (induction bs arbitrary: i cur)
  case Nil
  then show ?case by (simp add: covers_refl)
next
  case (Cons b bs)
  from Cons.prems(1) obtain stx m merged where
    b: "blob_ref x b = Inr (ref, stx, m)" and
    m: "merge_subsigs (msig_subsig m) cur = Inr merged" and
    l: "merge_loop x ref (i + 1) bs merged = Inr r"
    unfolding merge_loop_Cons_Inr by blast
  from b Cons.prems(2) have len: "length (msig_subsig m) = length cur"
    by (simp add: blob_ref_Inr)
  note ms = merge_subsigs_Inr [OF len m]
  from ms Cons.prems(2) have "length merged = refSubsigLength ref" by simp
  note ih = Cons.IH [OF l this]
  have c: "covers r cur" using ih ms by (blast intro: covers_trans)
  have a: "accepted x ref r b"
    unfolding accepted_def using b ih ms by (blast intro: covers_trans)
  from ih ms c a show ?case
    by (auto simp: blob_ref_signatures [OF b])
qed


lemma set_hd_tl: "2 \<le> length bs \<Longrightarrow> set bs = insert (bs ! 0) (set (tl bs))"
  by (cases bs) auto

lemma merged_facts:
  assumes "merged_signed_txn x bs = Inr r"
  obtains ref stx0 m0 newSubsigs where
    "2 \<le> length bs"
    "blob_ref x (bs ! 0) = Inr (ref, stx0, m0)"
    "st_msig r = Some \<lparr> msig_v = msig_v m0, msig_thr = msig_thr m0, msig_subsig = newSubsigs \<rparr>"
    "st_txn r = st_txn stx0"
    "merged_sgnr x ref = Inr (st_sgnr r)"
    "map ss_pk newSubsigs = map ss_pk (msig_subsig m0)"
    "length newSubsigs = refSubsigLength ref"
    "\<forall>b\<in>set bs. accepted x ref newSubsigs b"
    "slot_signatures newSubsigs = (\<Union>b\<in>set bs. blob_signatures x b)"
proof -
  from assms obtain ref stx m newSubsigs sgnr where
    len: "2 \<le> length bs" and
    b: "blob_ref x (bs ! 0) = Inr (ref, stx, m)" and
    l: "merge_loop x ref 1 (tl bs) (msig_subsig m) = Inr newSubsigs" and
    s: "merged_sgnr x ref = Inr sgnr" and
    r: "r = \<lparr> st_sig = None, st_txn = st_txn stx,
              st_msig = Some \<lparr> msig_v = msig_v m, msig_thr = msig_thr m,
                               msig_subsig = newSubsigs \<rparr>,
              st_lsig = None, st_sgnr = sgnr \<rparr>"
    unfolding merged_signed_txn_Inr by blast
  from b have rl: "length (msig_subsig m) = refSubsigLength ref" by (simp add: blob_ref_Inr)
  note ml = merge_loop_Inr [OF l rl]
  have a0: "accepted x ref newSubsigs (bs ! 0)"
    unfolding accepted_def using b ml by blast
  have all: "\<forall>b\<in>set bs. accepted x ref newSubsigs b"
    using a0 ml by (simp add: set_hd_tl [OF len])
  have sigs: "slot_signatures newSubsigs = (\<Union>b\<in>set bs. blob_signatures x b)"
    using ml by (simp add: set_hd_tl [OF len] blob_ref_signatures [OF b])
  show ?thesis
    by (rule that [OF len b _ _ _ _ _ all sigs]) (use r s ml rl in simp_all)
qed


subsection \<open>Rejected inputs\<close>

lemma blob_ref_attributes:
  assumes "blob_ref x b = Inr (ref, stx, m)"
  shows "blob_msig x b = Some m" "blob_txID x b = Some (refTxID ref)"
    "blob_authAddr x b = refAuthAddr ref" "length (blob_subsigs x b) = refSubsigLength ref"
    "blob_msigAddr x b = Some (refMsigAddr ref)"
  using assms
  by (auto simp: blob_ref_Inr blob_msig_def blob_txID_def blob_authAddr_def blob_subsigs_def
        blob_msigAddr_def)

lemma accepted_attributes:
  assumes "accepted x ref U b"
  shows "blob_msig x b \<noteq> None" "blob_txID x b = Some (refTxID ref)"
    "blob_authAddr x b = refAuthAddr ref" "length (blob_subsigs x b) = refSubsigLength ref"
    "blob_msigAddr x b = Some (refMsigAddr ref)"
  using assms unfolding accepted_def by (auto dest: blob_ref_attributes)

lemma accepted_signature:
  assumes "accepted x ref U b" "(k, s) \<in> blob_signatures x b"
  shows "(k, s) \<in> slot_signatures U"
proof -
  from assms(1) obtain stx m where
    b: "blob_ref x b = Inr (ref, stx, m)" and c: "covers U (msig_subsig m)"
    by (auto simp: accepted_def)
  from assms(2) covers_signatures [OF c] show ?thesis
    by (auto simp: blob_ref_signatures [OF b])
qed

lemma slot_signatures_functional:
  "(k, s) \<in> slot_signatures U \<Longrightarrow> (k, s') \<in> slot_signatures U \<Longrightarrow> s = s'"
  by (simp add: slot_signatures_eq)

lemma merged_not_rejected:
  assumes "merged_signed_txn x bs = Inr r"
  shows "\<not> merge_inputs_rejected x bs"
  using assms
proof (rule merged_facts)
  fix ref stx0 m0 newSubsigs
  assume len: "2 \<le> length bs"
    and all: "\<forall>b\<in>set bs. accepted x ref newSubsigs b"
  from len have hd: "bs ! 0 \<in> set bs" by (cases bs) auto
  have tl: "b \<in> set bs" if "b \<in> set (tl bs)" for b
    using that len by (simp add: set_hd_tl)
  note a0 = accepted_attributes [OF all [rule_format, OF hd]]
  have 1: "\<not> length bs < 2" using len by simp
  have 2: "\<not> (\<exists>b\<in>set bs. blob_msig x b = None)"
    using all by (auto dest: accepted_attributes(1))
  have 3: "\<not> (\<exists>b\<in>set (tl bs). blob_txID x b \<noteq> blob_txID x (bs ! 0))"
    using all a0(2) by (auto dest!: tl dest: accepted_attributes(2))
  have 4: "\<not> (\<exists>b\<in>set (tl bs). blob_authAddr x b \<noteq> blob_authAddr x (bs ! 0))"
    using all a0(3) by (auto dest!: tl dest: accepted_attributes(3))
  have 5: "\<not> (\<exists>b\<in>set (tl bs). length (blob_subsigs x b) \<noteq> length (blob_subsigs x (bs ! 0)))"
    using all a0(4) by (auto dest!: tl dest: accepted_attributes(4))
  have 6: "\<not> (\<exists>b\<in>set (tl bs). blob_msigAddr x b \<noteq> blob_msigAddr x (bs ! 0))"
    using all a0(5) by (auto dest!: tl dest: accepted_attributes(5))
  have 7: "\<not> (\<exists>b\<in>set bs. \<exists>b'\<in>set bs.
          \<exists>p\<in>blob_signatures x b. \<exists>p'\<in>blob_signatures x b'. fst p = fst p' \<and> snd p \<noteq> snd p')"
  proof (intro notI, elim bexE conjE)
    fix b b' p p'
    assume m: "b \<in> set bs" "b' \<in> set bs" "p \<in> blob_signatures x b" "p' \<in> blob_signatures x b'"
      and f: "fst p = fst p'" and n: "snd p \<noteq> snd p'"
    from m(1) all have "accepted x ref newSubsigs b" by blast
    from accepted_signature [OF this, of "fst p" "snd p"] m(3)
    have 1: "(fst p, snd p) \<in> slot_signatures newSubsigs" by simp
    from m(2) all have "accepted x ref newSubsigs b'" by blast
    from accepted_signature [OF this, of "fst p'" "snd p'"] m(4) f
    have 2: "(fst p, snd p') \<in> slot_signatures newSubsigs" by simp
    from slot_signatures_functional [OF 1 2] n show False by simp
  qed
  from 1 2 3 4 5 6 7 show ?thesis unfolding merge_inputs_rejected_def by blast
qed

text \<open>
  C7. \<^verbatim>\<open>mergeMultisigTransactions\<close> throws, and so produces no blob, whenever fewer than
  two blobs are given, a blob lacks a multisig record, a later blob has a txID, an auth
  address (absent against present, or both present and unequal), a subsig length or a
  pre-image-derived multisig address different from the first blob's, or two blobs carry
  different signatures for one slot.
\<close>

theorem merge_rejects:
  assumes "merge_inputs_rejected x bs"
  shows "\<exists>e. mergeMultisigTransactions x bs = Inl e \<and> merged_signed_txn x bs = Inl e"
proof (cases "merged_signed_txn x bs")
  case (Inl e)
  then show ?thesis by (simp add: mergeMultisigTransactions_def)
next
  case (Inr r)
  from merged_not_rejected [OF Inr] assms show ?thesis by simp
qed

text \<open>
  On the sample blobs: two different signatures for slot 0, and a single blob.
\<close>

theorem merge_rejects_witness:
  "merge_inputs_rejected merge_stub_ext [[1], [4]] \<and>
   mergeMultisigTransactions merge_stub_ext [[1], [4]] = Inl MergeSigMismatch \<and>
   merge_inputs_rejected merge_stub_ext [[1]] \<and>
   mergeMultisigTransactions merge_stub_ext [[1]] = Inl MergeLessThanTwo"
proof -
  have h1: "merge_inputs_rejected merge_stub_ext [[1], [4]]" by code_simp
  have h2: "mergeMultisigTransactions merge_stub_ext [[1], [4]] = Inl MergeSigMismatch"
    by code_simp
  have h3: "merge_inputs_rejected merge_stub_ext [[1]]" by code_simp
  have h4: "mergeMultisigTransactions merge_stub_ext [[1]] = Inl MergeLessThanTwo"
    by code_simp
  from merge_rejects [OF h1] merge_rejects [OF h3] h1 h2 h3 h4 show ?thesis by simp
qed

subsection \<open>The merge as an operation on signature sets\<close>









section \<open>Encoding and decoding\<close>

text \<open>The validators accept the values the constructor has stored.\<close>

lemma nullish_simps [simp]: "nullish None d = d" "nullish (Some a) d = a"
  by (simp_all add: nullish_def)

lemma nullish_elide [simp]: "nullish (elide d v) d = v"
  by (simp add: nullish_def elide_def)














lemma elide_eq_None [simp]: "elide d v = None \<longleftrightarrow> v = d"
  by (simp add: elide_def)
























lemma boxes_as_decoded_other: "applicationCall t = None \<Longrightarrow> boxes_as_decoded t = t"
  by (simp add: boxes_as_decoded_def)






text \<open>
  Why \<open>decoder_accepts\<close> asks for non-zero rounds: a key registration that goes online
  from round 0 is constructed and encoded, and its encoding is refused.
\<close>

lemma zero_vote_round_not_decoded:
  "\<not> isl (Transaction_new stub_ext zero_round_keyreg) \<and>
   bind (Transaction_new stub_ext zero_round_keyreg)
     (\<lambda>t. bind (get_obj_for_encoding t) (from_obj_for_encoding stub_ext))
     = Inl OnlineKeyregMissingFields"
  by code_simp

end
